theory Spec2Isabelle
  imports Complex_Main
begin

section \<open>The PDF service test script (examples/pdf\_service/test-api.py)\<close>

text \<open>
  The script talks to a remote service over HTTP, prints what it sees and, in load mode,
  counts successes and failures. The embedding keeps the script's functions and names.
  What the script does beyond returning a value is written out:
  \<^item> every call of \<open>requests.get\<close>/\<open>requests.post\<close>, \<open>time.sleep\<close>, \<open>print\<close>,
    \<open>mkdir\<close> and \<open>write_bytes\<close> is an event appended to a trace, in program order;
  \<^item> what the outside world answers (HTTP responses, the file system, the clock, the
    random generator, the order in which the thread pool finishes its futures) is read
    from an environment record, so that every theorem holds for every such world;
  \<^item> a Python exception is \<open>Inl e\<close> of a sum type, and every \<open>except Exception\<close> of the
    source is a case distinction on it. What \<open>except Exception\<close> does not catch (a
    keyboard interrupt, the exit of the interpreter) is outside the model.
  A test function numbers its HTTP calls from 0, and the answer to a call depends on this
  number and on the request only.
\<close>

subsection \<open>Python values\<close>

datatype py_error =
  KeyError | TypeError | AttributeError | UnboundLocalError
  | JSONDecodeError | RequestException | OSError | RuntimeError

text \<open>A decoded JSON document, as \<open>response.json()\<close> returns it. A dict is an
  association list read with \<open>map_of\<close>.\<close>

datatype json =
  JNull | JBool bool | JInt int | JFloat real | JStr string
  | JArr "json list" | JObj "(string \<times> json) list"

text \<open>\<open>d[k]\<close>: only a dict can be indexed by a string; a missing key raises.\<close>

fun py_getitem :: "json \<Rightarrow> string \<Rightarrow> py_error + json" where
  "py_getitem (JObj kvs) k = (case map_of kvs k of None \<Rightarrow> Inl KeyError | Some v \<Rightarrow> Inr v)"
| "py_getitem _ k = Inl TypeError"

text \<open>\<open>d.get(k, default)\<close>: only a dict has the method.\<close>

fun py_get :: "json \<Rightarrow> string \<Rightarrow> json \<Rightarrow> py_error + json" where
  "py_get (JObj kvs) k dflt = Inr (case map_of kvs k of None \<Rightarrow> dflt | Some v \<Rightarrow> v)"
| "py_get _ k dflt = Inl AttributeError"

text \<open>Truth value of an optional integer command line argument: \<open>None\<close> and \<open>0\<close> are false.\<close>

fun truthy :: "int option \<Rightarrow> bool" where
  "truthy None = False"
| "truthy (Some n) = (n \<noteq> 0)"

subsection \<open>Formatting integers\<close>

definition digit_char :: "nat \<Rightarrow> char" where
  "digit_char d = char_of (48 + d)"

fun str_nat :: "nat \<Rightarrow> string" where
  "str_nat n = (if n < 10 then [digit_char n] else str_nat (n div 10) @ [digit_char (n mod 10)])"

text \<open>\<open>str(n)\<close> and \<open>f"{n}"\<close> for an int.\<close>

definition str_int :: "int \<Rightarrow> string" where
  "str_int i = (if i < 0 then CHR ''-'' # str_nat (nat (- i)) else str_nat (nat i))"

text \<open>\<open>f"{i:04d}"\<close>: zeros between the sign and the digits, up to a width of four.\<close>

definition fmt_04d :: "int \<Rightarrow> string" where
  "fmt_04d i =
     (let sgn = (if i < 0 then ''-'' else '''');
          ds = str_nat (nat \<bar>i\<bar>)
      in sgn @ replicate (4 - length sgn - length ds) (CHR ''0'') @ ds)"

subsection \<open>HTTP, the world and the trace\<close>

record request =
  meth :: string
  url :: string
  headers :: "(string \<times> string) list"
  body :: "json option"
  timeout :: int

record response =
  status_code :: int
  resp_text :: string
  content :: string
  json_result :: "py_error + json"

text \<open>The place in the script that issues an HTTP call.\<close>

datatype call_site = HealthCall | GenerateCall | CreateJobCall | JobStatusCall | DownloadCall

datatype event =
  Http call_site request | Sleep int | Print string | Mkdir string | WriteBytes string string

type_synonym trace = "event list"

text \<open>
  The environment. \<open>API_BASE\<close>, \<open>API_KEY\<close> and \<open>OUTPUT_DIR\<close> are the script's globals.
  \<open>net k r\<close> is what the \<open>k\<close>-th HTTP call of a test function gives for the request
  \<open>r\<close>: a response, or the exception \<open>requests\<close> raises. \<open>randint\<close> is the value
  \<open>random.randint(1, 10)\<close> returns while the payload of an invoice is built.
  \<open>fs_mkdir\<close> and \<open>fs_write\<close> say whether \<open>Path.mkdir\<close> and \<open>Path.write_bytes\<close> raise.
  \<open>repr_json\<close>, \<open>str_exn\<close> and \<open>fmt_2f\<close> are Python's own rendering of a decoded JSON
  value that is not a string, of an exception and of a float with two decimals.
  \<open>clock k\<close> is the \<open>k\<close>-th reading of \<open>time.time()\<close> in a load run,
  \<open>as_completed xs\<close> the order in which the futures submitted for \<open>xs\<close> finish, and
  \<open>pool_schedule ts\<close> the order in which the events of the tasks come about when the
  thread pool runs them, \<open>ts\<close> being what each task does when it runs.
\<close>

record env =
  API_BASE :: string
  API_KEY :: string
  OUTPUT_DIR :: string
  net :: "nat \<Rightarrow> request \<Rightarrow> py_error + response"
  randint :: "string \<Rightarrow> int"
  fs_mkdir :: "string \<Rightarrow> py_error option"
  fs_write :: "string \<Rightarrow> string \<Rightarrow> py_error option"
  repr_json :: "json \<Rightarrow> string"
  str_exn :: "py_error \<Rightarrow> string"
  fmt_2f :: "real \<Rightarrow> string"
  clock :: "nat \<Rightarrow> real"
  as_completed :: "int list \<Rightarrow> int list"
  pool_schedule :: "trace list \<Rightarrow> trace"

text \<open>The number of HTTP calls made so far.\<close>

fun is_http :: "event \<Rightarrow> bool" where
  "is_http (Http c r) = True"
| "is_http _ = False"

definition n_http :: "trace \<Rightarrow> nat" where
  "n_http tr = length (filter is_http tr)"

text \<open>The number of HTTP calls a given place of the script has made.\<close>

fun is_call :: "call_site \<Rightarrow> event \<Rightarrow> bool" where
  "is_call c (Http c' r) = (c = c')"
| "is_call c _ = False"

definition n_calls :: "call_site \<Rightarrow> trace \<Rightarrow> nat" where
  "n_calls c tr = length (filter (is_call c) tr)"

text \<open>\<open>str(v)\<close> inside an f-string: a string is itself.\<close>

fun py_str :: "env \<Rightarrow> json \<Rightarrow> string" where
  "py_str e (JStr s) = s"
| "py_str e v = repr_json e v"

text \<open>\<open>OUTPUT_DIR / name\<close>.\<close>

definition path_join :: "string \<Rightarrow> string \<Rightarrow> string" where
  "path_join d name = d @ ''/'' @ name"

definition get_headers :: "env \<Rightarrow> (string \<times> string) list" where
  "get_headers e = [(''Content-Type'', ''application/json''), (''X-API-Key'', API_KEY e)]"

definition generate_invoice_data :: "env \<Rightarrow> string \<Rightarrow> json" where
  "generate_invoice_data e invoice_num =
     (let quantity = randint e invoice_num in
      JObj [(''invoice'', JObj [
        (''number'', JStr (''INV-2025-'' @ invoice_num)),
        (''company'', JObj [
           (''name'', JStr ''Petty PDF Solutions Inc.''),
           (''address'', JStr ''123 Document Lane''),
           (''city'', JStr ''San Francisco''),
           (''zip'', JStr ''94102'')]),
        (''customer'', JObj [
           (''name'', JStr (''Customer '' @ invoice_num @ '' Corp.'')),
           (''email'', JStr (''billing'' @ invoice_num @ ''@example.com''))]),
        (''items'', JArr [
           JObj [(''description'', JStr ''PDF Generation Service - Premium Plan''),
                 (''quantity'', JInt 1),
                 (''price'', JStr ''299.00''),
                 (''total'', JStr ''299.00'')],
           JObj [(''description'', JStr ''API Calls (10,000 requests)''),
                 (''quantity'', JInt quantity),
                 (''price'', JStr ''49.00''),
                 (''total'', JStr (str_int (49 * quantity) @ ''.00''))]]),
        (''subtotal'', JStr ''594.00''),
        (''tax_rate'', JStr ''8.5''),
        (''tax'', JStr ''50.49''),
        (''total'', JStr ''644.49'')])])"

definition request_body :: "env \<Rightarrow> string \<Rightarrow> json" where
  "request_body e invoice_num =
     JObj [(''template'', JStr ''invoice''), (''data'', generate_invoice_data e invoice_num)]"

subsection \<open>test\_health\<close>

definition test_health :: "env \<Rightarrow> bool \<times> trace" where
  "test_health e =
     (let tr0 = [Print ''[INFO] Testing health endpoint...''];
          req = \<lparr>meth = ''GET'', url = API_BASE e @ ''/health'', headers = [],
                 body = None, timeout = 10\<rparr>;
          tr1 = tr0 @ [Http HealthCall req]
      in case net e (n_http tr0) req of
           Inl ex \<Rightarrow> (False, tr1 @ [Print (''[ERROR] Health check failed: '' @ str_exn e ex)])
         | Inr r \<Rightarrow>
             if status_code r = 200 then
               (case json_result r of
                  Inl ex \<Rightarrow>
                    (False, tr1 @ [Print (''[ERROR] Health check failed: '' @ str_exn e ex)])
                | Inr j \<Rightarrow>
                    (True, tr1 @ [Print (''[INFO] Health check passed: '' @ py_str e j)]))
             else
               (False, tr1 @ [Print (''[ERROR] Health check failed (HTTP ''
                  @ str_int (status_code r) @ ''): '' @ resp_text r)]))"

subsection \<open>Saving a downloaded document\<close>

text \<open>
  The four lines both generation tests run on a 200 response:
  \<open>OUTPUT_DIR.mkdir(parents=True, exist_ok=True)\<close>, \<open>output_file.write_bytes(response.content)\<close>,
  \<open>file_size = len(response.content)\<close> and the print of success. \<open>label\<close> is \<open>Sync\<close> or
  \<open>Async\<close>. An exception of the file system leaves the \<open>try\<close> block.
\<close>

definition save_output :: "env \<Rightarrow> string \<Rightarrow> string \<Rightarrow> response \<Rightarrow> trace \<Rightarrow> (py_error + bool) \<times> trace" where
  "save_output e label output_file r tr =
     (let tr1 = tr @ [Mkdir (OUTPUT_DIR e)] in
      case fs_mkdir e (OUTPUT_DIR e) of
        Some ex \<Rightarrow> (Inl ex, tr1)
      | None \<Rightarrow>
          (let tr2 = tr1 @ [WriteBytes output_file (content r)] in
           case fs_write e output_file (content r) of
             Some ex \<Rightarrow> (Inl ex, tr2)
           | None \<Rightarrow>
               (let file_size = int (length (content r)) in
                (Inr True, tr2 @ [Print (''[INFO] '' @ label @ '' generation succeeded: ''
                   @ output_file @ '' ('' @ str_int file_size @ '' bytes)'')]))))"

subsection \<open>test\_sync\_generation\<close>

text \<open>The body of the \<open>try\<close> block.\<close>

definition sync_try :: "env \<Rightarrow> string \<Rightarrow> trace \<Rightarrow> (py_error + bool) \<times> trace" where
  "sync_try e invoice_num tr0 =
     (let output_file = path_join (OUTPUT_DIR e) (''sync-invoice-'' @ invoice_num @ ''.pdf'');
          req = \<lparr>meth = ''POST'', url = API_BASE e @ ''/api/v1/generate'',
                 headers = get_headers e, body = Some (request_body e invoice_num),
                 timeout = 60\<rparr>;
          tr1 = tr0 @ [Http GenerateCall req]
      in case net e (n_http tr0) req of
           Inl ex \<Rightarrow> (Inl ex, tr1)
         | Inr r \<Rightarrow>
             if status_code r = 200 then save_output e ''Sync'' output_file r tr1
             else (Inr False, tr1 @ [Print (''[ERROR] Sync generation failed (HTTP ''
                     @ str_int (status_code r) @ ''): '' @ resp_text r)]))"

definition test_sync_generation :: "env \<Rightarrow> string \<Rightarrow> bool \<times> trace" where
  "test_sync_generation e invoice_num =
     (let tr0 = [Print (''[INFO] Testing synchronous PDF generation (invoice #''
                  @ invoice_num @ '')...'')]
      in case sync_try e invoice_num tr0 of
           (Inr b, tr) \<Rightarrow> (b, tr)
         | (Inl ex, tr) \<Rightarrow>
             (False, tr @ [Print (''[ERROR] Sync generation failed: '' @ str_exn e ex)]))"

subsection \<open>test\_async\_generation\<close>

definition status_request :: "env \<Rightarrow> json \<Rightarrow> request" where
  "status_request e job_id =
     \<lparr>meth = ''GET'', url = API_BASE e @ ''/api/v1/jobs/'' @ py_str e job_id,
      headers = get_headers e, body = None, timeout = 10\<rparr>"

definition download_request :: "env \<Rightarrow> json \<Rightarrow> request" where
  "download_request e job_id =
     \<lparr>meth = ''GET'', url = API_BASE e @ ''/api/v1/jobs/'' @ py_str e job_id @ ''/download'',
      headers = get_headers e, body = None, timeout = 60\<rparr>"

definition create_request :: "env \<Rightarrow> string \<Rightarrow> request" where
  "create_request e invoice_num =
     \<lparr>meth = ''POST'', url = API_BASE e @ ''/api/v1/jobs'', headers = get_headers e,
      body = Some (request_body e invoice_num), timeout = 30\<rparr>"

text \<open>
  How the \<open>for\<close> loop over the attempts is left: it runs out or meets \<open>break\<close>
  (\<open>LoopDone\<close>, with the variable \<open>status\<close> as it is then: \<open>None\<close> while it was never
  assigned), a \<open>return\<close> inside it, or an exception.
\<close>

datatype loop_exit = LoopDone "json option" | Returned bool | Raised py_error

text \<open>\<open>status_data.get('error', {}).get('message', 'Unknown error')\<close>.\<close>

definition error_message :: "json \<Rightarrow> py_error + json" where
  "error_message status_data =
     (case py_get status_data ''error'' (JObj []) of
        Inl ex \<Rightarrow> Inl ex
      | Inr err \<Rightarrow> py_get err ''message'' (JStr ''Unknown error''))"

text \<open>The polling loop \<open>for attempt in range(1, max_attempts + 1)\<close>, on the attempts
  still to come.\<close>

fun poll :: "env \<Rightarrow> json \<Rightarrow> int list \<Rightarrow> json option \<Rightarrow> trace \<Rightarrow> loop_exit \<times> trace" where
  "poll e job_id [] status tr = (LoopDone status, tr)"
| "poll e job_id (attempt # rest) status tr =
     (let tr1 = tr @ [Sleep 1];
          req = status_request e job_id;
          tr2 = tr1 @ [Http JobStatusCall req]
      in case net e (n_http tr1) req of
           Inl ex \<Rightarrow> (Raised ex, tr2)
         | Inr r \<Rightarrow>
             if status_code r \<noteq> 200 then
               (Returned False, tr2 @ [Print (''[ERROR] Status check failed (HTTP ''
                  @ str_int (status_code r) @ ''): '' @ resp_text r)])
             else
               (case json_result r of
                  Inl ex \<Rightarrow> (Raised ex, tr2)
                | Inr status_data \<Rightarrow>
                    (case py_getitem status_data ''status'' of
                       Inl ex \<Rightarrow> (Raised ex, tr2)
                     | Inr status' \<Rightarrow>
                         (let tr3 = tr2 @ [Print (''[INFO] Job status: '' @ py_str e status'
                                      @ '' (attempt '' @ str_int attempt @ '')'')]
                          in if status' = JStr ''completed'' then (LoopDone (Some status'), tr3)
                             else if status' = JStr ''failed'' then
                               (case error_message status_data of
                                  Inl ex \<Rightarrow> (Raised ex, tr3)
                                | Inr msg \<Rightarrow>
                                    (Returned False,
                                     tr3 @ [Print (''[ERROR] Job failed: '' @ py_str e msg)]))
                             else poll e job_id rest (Some status') tr3))))"

definition max_attempts :: int where
  "max_attempts = 30"

text \<open>The download, after the loop.\<close>

definition download_result :: "env \<Rightarrow> string \<Rightarrow> json \<Rightarrow> trace \<Rightarrow> (py_error + bool) \<times> trace" where
  "download_result e invoice_num job_id tr =
     (let output_file = path_join (OUTPUT_DIR e) (''async-invoice-'' @ invoice_num @ ''.pdf'');
          req = download_request e job_id;
          tr1 = tr @ [Http DownloadCall req]
      in case net e (n_http tr) req of
           Inl ex \<Rightarrow> (Inl ex, tr1)
         | Inr r \<Rightarrow>
             if status_code r = 200 then save_output e ''Async'' output_file r tr1
             else (Inr False, tr1 @ [Print (''[ERROR] Download failed (HTTP ''
                     @ str_int (status_code r) @ ''): '' @ resp_text r)]))"

text \<open>What follows the creation of the job: the loop, the test for a timeout, the
  download.\<close>

definition poll_and_download :: "env \<Rightarrow> string \<Rightarrow> json \<Rightarrow> trace \<Rightarrow> (py_error + bool) \<times> trace" where
  "poll_and_download e invoice_num job_id tr =
     (case poll e job_id [1..max_attempts] None tr of
        (Raised ex, tr') \<Rightarrow> (Inl ex, tr')
      | (Returned b, tr') \<Rightarrow> (Inr b, tr')
      | (LoopDone None, tr') \<Rightarrow> (Inl UnboundLocalError, tr')
      | (LoopDone (Some status), tr') \<Rightarrow>
          if status \<noteq> JStr ''completed'' then
            (Inr False, tr' @ [Print ''[ERROR] Job timed out''])
          else download_result e invoice_num job_id tr')"

text \<open>The body of the \<open>try\<close> block.\<close>

definition async_try :: "env \<Rightarrow> string \<Rightarrow> trace \<Rightarrow> (py_error + bool) \<times> trace" where
  "async_try e invoice_num tr0 =
     (let req = create_request e invoice_num;
          tr1 = tr0 @ [Http CreateJobCall req]
      in case net e (n_http tr0) req of
           Inl ex \<Rightarrow> (Inl ex, tr1)
         | Inr r \<Rightarrow>
             if status_code r \<noteq> 202 then
               (Inr False, tr1 @ [Print (''[ERROR] Job creation failed (HTTP ''
                  @ str_int (status_code r) @ ''): '' @ resp_text r)])
             else
               (case json_result r of
                  Inl ex \<Rightarrow> (Inl ex, tr1)
                | Inr job_data \<Rightarrow>
                    (case py_getitem job_data ''job_id'' of
                       Inl ex \<Rightarrow> (Inl ex, tr1)
                     | Inr job_id \<Rightarrow>
                         poll_and_download e invoice_num job_id
                           (tr1 @ [Print (''[INFO] Job created: '' @ py_str e job_id)]))))"

definition test_async_generation :: "env \<Rightarrow> string \<Rightarrow> bool \<times> trace" where
  "test_async_generation e invoice_num =
     (let tr0 = [Print (''[INFO] Testing asynchronous PDF generation (invoice #''
                  @ invoice_num @ '')...'')]
      in case async_try e invoice_num tr0 of
           (Inr b, tr) \<Rightarrow> (b, tr)
         | (Inl ex, tr) \<Rightarrow>
             (False, tr @ [Print (''[ERROR] Async generation failed: '' @ str_exn e ex)]))"

subsection \<open>test\_load\<close>

text \<open>
  A task of the load run: called with an index, it gives a boolean or raises, and while
  it runs it does what its trace says.
\<close>

type_synonym task = "int \<Rightarrow> (py_error + bool) \<times> trace"

text \<open>
  \<open>generate_one\<close> is the closure of \<open>test_load\<close>. Both generation tests catch every
  exception themselves, so it returns a boolean; its type still has the exception that
  the \<open>try\<close> around its call (or around \<open>future.result()\<close>) is written for.
\<close>

definition generate_one :: "env \<Rightarrow> bool \<Rightarrow> task" where
  "generate_one e use_async i =
     (let invoice_num = fmt_04d i;
          run = (if use_async then test_async_generation e invoice_num
                 else test_sync_generation e invoice_num)
      in (Inr (fst run), snd run))"

text \<open>The body both loops share: \<open>success += 1\<close> on a true result, \<open>failed += 1\<close> on
  a false one and on an exception.\<close>

fun tally :: "py_error + bool \<Rightarrow> int \<times> int \<Rightarrow> int \<times> int" where
  "tally (Inr True) (success, failed) = (success + 1, failed)"
| "tally (Inr False) (success, failed) = (success, failed + 1)"
| "tally (Inl ex) (success, failed) = (success, failed + 1)"

text \<open>The sequential loop \<open>for i in range(1, count + 1)\<close>: each turn calls the task,
  which runs to its end there and then, and counts what it gave. The state is the two
  counters and the trace of what has happened so far.\<close>

fun count_loop :: "task \<Rightarrow> int list \<Rightarrow> (int \<times> int) \<times> trace \<Rightarrow> (int \<times> int) \<times> trace" where
  "count_loop task [] st = st"
| "count_loop task (i # rest) (counts, tr) =
     (case task i of (r, t) \<Rightarrow> count_loop task rest (tally r counts, tr @ t))"

text \<open>The loop \<open>for future in as_completed(futures)\<close> of the thread pool's branch: each
  turn takes \<open>future.result()\<close>, the value the task of this future gave or the exception
  it raised, and counts it. The tasks themselves run in the pool's threads.\<close>

fun collect_loop :: "(int \<Rightarrow> py_error + bool) \<Rightarrow> int list \<Rightarrow> int \<times> int \<Rightarrow> int \<times> int" where
  "collect_loop result [] counts = counts"
| "collect_loop result (i # rest) counts = collect_loop result rest (tally (result i) counts)"

text \<open>
  What a load run leaves: the two counters, the duration and the rate it prints, the
  order in which the loop took the tasks' results (\<open>consumed\<close>), the size of the thread
  pool it made, if any, what the tasks did, in the order in which it happened
  (\<open>events\<close>), and the lines the run prints itself.
\<close>

record load_report =
  success :: int
  failed :: int
  duration :: real
  rate :: real
  consumed :: "int list"
  max_workers :: "int option"
  events :: trace
  printed :: "string list"

text \<open>\<open>test_load\<close> for any task in the place of \<open>generate_one\<close>.\<close>

definition test_load_with :: "env \<Rightarrow> task \<Rightarrow> int \<Rightarrow> int \<Rightarrow> bool \<Rightarrow> load_report" where
  "test_load_with e task count par use_async' =
     (let mode = (if use_async' then ''async'' else ''sync'');
          head_line = ''[INFO] Starting load test: '' @ str_int count @ '' invoices ('' @ mode
             @ '' mode, '' @ str_int par @ '' concurrent)'';
          start_time = clock e 0;
          order = (if par > 1 then as_completed e [1..count] else [1..count]);
          run = (if par > 1
                 then (collect_loop (\<lambda>i. fst (task i)) order (0, 0),
                       pool_schedule e (map (\<lambda>i. snd (task i)) [1..count]))
                 else count_loop task order ((0, 0), []));
          counts = fst run;
          dur = clock e 1 - start_time;
          rt = (if dur > 0 then real_of_int count / dur else 0)
      in \<lparr>success = fst counts, failed = snd counts, duration = dur, rate = rt,
          consumed = order,
          max_workers = (if par > 1 then Some par else None),
          events = snd run,
          printed = [head_line, [], ''[INFO] Load test completed:'',
            ''[INFO]   Total: '' @ str_int count,
            ''[INFO]   Success: '' @ str_int (fst counts),
            ''[INFO]   Failed: '' @ str_int (snd counts),
            ''[INFO]   Duration: '' @ fmt_2f e dur @ ''s'',
            ''[INFO]   Rate: '' @ fmt_2f e rt @ '' PDFs/sec'']
            @ (if par > 1 then [''[INFO]   Concurrency: '' @ str_int par] else [])\<rparr>)"

definition test_load :: "env \<Rightarrow> int \<Rightarrow> int \<Rightarrow> bool \<Rightarrow> load_report" where
  "test_load e count par use_async' =
     test_load_with e (generate_one e use_async') count par use_async'"

subsection \<open>run\_all\_tests and main\<close>

definition run_all_tests :: "env \<Rightarrow> bool" where
  "run_all_tests e =
     (if \<not> fst (test_health e) then False
      else if \<not> fst (test_sync_generation e ''sync-test'') then False
      else if \<not> fst (test_async_generation e ''async-test'') then False
      else True)"

text \<open>The parsed command line. \<open>load\<close> is \<open>None\<close> without \<open>--load\<close>.\<close>

record args =
  health :: bool
  sync :: bool
  async_test :: bool
  load :: "int option"
  parallel :: int
  use_async :: bool

text \<open>\<open>main\<close>, as the exit status of the process. Each branch ends in \<open>sys.exit\<close>;
  falling off the end of \<open>main\<close> is status 0.\<close>

definition main :: "env \<Rightarrow> args \<Rightarrow> int" where
  "main e a =
     (if \<not> (health a \<or> sync a \<or> async_test a \<or> truthy (load a)) then
        (if run_all_tests e then 0 else 1)
      else if health a then (if fst (test_health e) then 0 else 1)
      else if sync a then (if fst (test_sync_generation e ''001'') then 0 else 1)
      else if async_test a then (if fst (test_async_generation e ''001'') then 0 else 1)
      else if truthy (load a) then
        (case load a of
           Some n \<Rightarrow> (let report = test_load e n (parallel a) (use_async a) in 0)
         | None \<Rightarrow> 0)
      else 0)"

section \<open>Observations and sample worlds\<close>

subsection \<open>What the world does in a run\<close>

text \<open>What \<open>concurrent.futures.as_completed\<close> promises for the futures submitted for the
  indices 1 to \<open>count\<close>: each of them, once.\<close>

definition as_completed_ok :: "env \<Rightarrow> int \<Rightarrow> bool" where
  "as_completed_ok e count =
     (distinct (as_completed e [1..count]) \<and> set (as_completed e [1..count]) = {1..count})"

text \<open>What the loop reads from the answer to a status fetch: the decoded document of a
  200 response, and its \<open>status\<close> entry. \<open>None\<close> is an answer the loop does not read a
  status from (another status code, a body that is not JSON, no \<open>status\<close>).\<close>

definition status_doc :: "response \<Rightarrow> json option" where
  "status_doc r =
     (if status_code r \<noteq> 200 then None
      else (case json_result r of Inl ex \<Rightarrow> None | Inr d \<Rightarrow> Some d))"

definition resp_status :: "response \<Rightarrow> json option" where
  "resp_status r =
     (case status_doc r of
        None \<Rightarrow> None
      | Some d \<Rightarrow> (case py_getitem d ''status'' of Inl ex \<Rightarrow> None | Inr s \<Rightarrow> Some s))"

text \<open>The status a fetch for the job reads when it is the HTTP call number \<open>k\<close> of the
  lifecycle. The creation of the job is call 0, so the \<open>k\<close>-th fetch is call \<open>k\<close>.\<close>

definition status_at :: "env \<Rightarrow> json \<Rightarrow> nat \<Rightarrow> json option" where
  "status_at e job_id k =
     (case net e k (status_request e job_id) of Inl ex \<Rightarrow> None | Inr r \<Rightarrow> resp_status r)"

text \<open>A status on which the loop goes on: any but \<open>completed\<close> and \<open>failed\<close>, so
  \<open>queued\<close> and \<open>processing\<close> among others.\<close>

definition in_progress :: "json option \<Rightarrow> bool" where
  "in_progress st =
     (case st of None \<Rightarrow> False | Some s \<Rightarrow> s \<noteq> JStr ''completed'' \<and> s \<noteq> JStr ''failed'')"

text \<open>The job identifier the lifecycle gets from the creation call: the \<open>job_id\<close> entry
  of a 202 response.\<close>

definition created_job :: "env \<Rightarrow> string \<Rightarrow> json option" where
  "created_job e invoice_num =
     (case net e 0 (create_request e invoice_num) of
        Inl ex \<Rightarrow> None
      | Inr r \<Rightarrow>
          if status_code r \<noteq> 202 then None
          else (case json_result r of
                  Inl ex \<Rightarrow> None
                | Inr d \<Rightarrow>
                    (case py_getitem d ''job_id'' of Inl ex \<Rightarrow> None | Inr j \<Rightarrow> Some j)))"

text \<open>The trace of a lifecycle when its job has been created and the loop begins.\<close>

definition created_trace :: "env \<Rightarrow> string \<Rightarrow> json \<Rightarrow> trace" where
  "created_trace e invoice_num job_id =
     [Print (''[INFO] Testing asynchronous PDF generation (invoice #'' @ invoice_num @ '')...''),
      Http CreateJobCall (create_request e invoice_num),
      Print (''[INFO] Job created: '' @ py_str e job_id)]"

subsection \<open>Sample worlds\<close>

text \<open>A world with the script's default configuration and a given network: the file
  system works, ten seconds pass between two readings of the clock, and the thread pool
  runs its tasks one after another but hands their results over in reverse order.\<close>

definition sample_env :: "(nat \<Rightarrow> request \<Rightarrow> py_error + response) \<Rightarrow> env" where
  "sample_env nt =
     \<lparr>API_BASE = ''http://localhost:3000'', API_KEY = ''dev-secret-key'',
      OUTPUT_DIR = ''./test-output'', net = nt, randint = (\<lambda>s. 1),
      fs_mkdir = (\<lambda>d. None), fs_write = (\<lambda>f b. None),
      repr_json = (\<lambda>v. ''<json>''), str_exn = (\<lambda>x. ''<exception>''),
      fmt_2f = (\<lambda>x. ''<float>''), clock = (\<lambda>k. 10 * real k), as_completed = rev,
      pool_schedule = concat\<rparr>"

text \<open>The service is down: every call raises.\<close>

definition net_down :: "nat \<Rightarrow> request \<Rightarrow> py_error + response" where
  "net_down k r = Inl RequestException"

text \<open>A task that succeeds for the index 1, raises for 2 and fails for the others, and
  sleeps for as many seconds as its index says.\<close>

definition sample_task :: task where
  "sample_task i = (if i = 2 then Inl RuntimeError else Inr (i = 1), [Sleep i])"

text \<open>The command line without any argument.\<close>

definition no_flags :: args where
  "no_flags = \<lparr>health = False, sync = False, async_test = False, load = None,
                parallel = 1, use_async = False\<rparr>"

text \<open>A service that accepts every job as \<open>job-1\<close>, answers the status fetch that is
  call \<open>k\<close> with the document \<open>doc_at k\<close>, and the download with a given status code.\<close>

definition json_response :: "int \<Rightarrow> json \<Rightarrow> response" where
  "json_response c j = \<lparr>status_code = c, resp_text = [], content = ''%PDF'', json_result = Inr j\<rparr>"

definition sample_net :: "(nat \<Rightarrow> json) \<Rightarrow> int \<Rightarrow> nat \<Rightarrow> request \<Rightarrow> py_error + response" where
  "sample_net doc_at download_code k r =
     (if k = 0 then Inr (json_response 202 (JObj [(''job_id'', JStr ''job-1'')]))
      else if url r = ''http://localhost:3000/api/v1/jobs/job-1''
      then Inr (json_response 200 (doc_at k))
      else Inr (json_response download_code JNull))"

text \<open>Three jobs: one that stays \<open>processing\<close>, one that is \<open>queued\<close>, \<open>processing\<close> and
  then \<open>completed\<close>, and one that has failed at the first fetch.\<close>

definition always_processing :: "nat \<Rightarrow> json" where
  "always_processing k = JObj [(''status'', JStr ''processing'')]"

definition completed_third :: "nat \<Rightarrow> json" where
  "completed_third k =
     (if k = 1 then JObj [(''status'', JStr ''queued'')]
      else if k = 2 then JObj [(''status'', JStr ''processing'')]
      else JObj [(''status'', JStr ''completed'')])"

definition failed_first :: "nat \<Rightarrow> json" where
  "failed_first k =
     JObj [(''status'', JStr ''failed''), (''error'', JObj [(''message'', JStr ''render error'')])]"

text \<open>A job that has failed at the first fetch, with an \<open>error\<close> entry that is a
  string, not an object.\<close>

definition failed_malformed :: "nat \<Rightarrow> json" where
  "failed_malformed k =
     JObj [(''status'', JStr ''failed''), (''error'', JStr ''render error'')]"

section \<open>The load run accounts for every task\<close>

lemma tally_total: "fst (tally r acc) + snd (tally r acc) = fst acc + snd acc + 1"
  by (cases "(r, acc)" rule: tally.cases) simp_all

lemma collect_loop_total:
  "fst (collect_loop result xs acc) + snd (collect_loop result xs acc)
     = fst acc + snd acc + int (length xs)"
  by (induction xs arbitrary: acc) (simp_all add: tally_total)

lemma collect_loop_fst:
  "fst (collect_loop result xs acc)
     = fst acc + int (length (filter (\<lambda>i. result i = Inr True) xs))"
proof (induction xs arbitrary: acc)
  case Nil
  then show ?case by simp
next
  case (Cons i xs)
  show ?case
    by (cases "(result i, acc)" rule: tally.cases) (simp_all add: Cons.IH)
qed

lemma collect_loop_snd:
  "snd (collect_loop result xs acc)
     = snd acc + int (length (filter (\<lambda>i. result i \<noteq> Inr True) xs))"
proof (induction xs arbitrary: acc)
  case Nil
  then show ?case by simp
next
  case (Cons i xs)
  show ?case
    by (cases "(result i, acc)" rule: tally.cases) (simp_all add: Cons.IH)
qed

text \<open>The sequential loop counts what the tasks give, as the pool's loop counts the
  results of the futures, and its trace is what the tasks do, one task after another in
  the order of the loop.\<close>

lemma count_loop_counts:
  "fst (count_loop task xs (counts, tr)) = collect_loop (\<lambda>i. fst (task i)) xs counts"
proof (induction xs arbitrary: counts tr)
  case Nil
  show ?case by simp
next
  case (Cons i xs)
  show ?case by (cases "task i") (simp add: Cons.IH)
qed

lemma count_loop_events:
  "snd (count_loop task xs (counts, tr)) = tr @ concat (map (\<lambda>i. snd (task i)) xs)"
proof (induction xs arbitrary: counts tr)
  case Nil
  show ?case by simp
next
  case (Cons i xs)
  show ?case by (cases "task i") (simp add: Cons.IH)
qed

lemma load_success:
  "success (test_load_with e task count par ua)
     = fst (collect_loop (\<lambda>i. fst (task i))
              (if 1 < par then as_completed e [1..count] else [1..count]) (0, 0))"
  by (simp add: test_load_with_def Let_def count_loop_counts)

lemma load_failed:
  "failed (test_load_with e task count par ua)
     = snd (collect_loop (\<lambda>i. fst (task i))
              (if 1 < par then as_completed e [1..count] else [1..count]) (0, 0))"
  by (simp add: test_load_with_def Let_def count_loop_counts)

lemma load_consumed:
  "consumed (test_load_with e task count par ua)
     = (if 1 < par then as_completed e [1..count] else [1..count])"
  by (simp add: test_load_with_def Let_def)

lemma length_completed:
  assumes ok: "as_completed_ok e n" and n: "0 \<le> n"
  shows "int (length (as_completed e [1..n])) = n"
proof -
  have d: "distinct (as_completed e [1..n])" and s: "set (as_completed e [1..n]) = {1..n}"
    using ok by (simp_all add: as_completed_ok_def)
  have "card (set (as_completed e [1..n])) = length (as_completed e [1..n])"
    using d by (rule distinct_card)
  then have "length (as_completed e [1..n]) = card {1..n}"
    using s by simp
  then show ?thesis using n by simp
qed

lemma sample_completed_ok: "as_completed_ok (sample_env nt) n"
  by (simp add: as_completed_ok_def sample_env_def)



section \<open>Sequential and pooled runs, and the rate\<close>

lemma filter_length_perm:
  assumes "distinct xs" "distinct ys" "set xs = set ys"
  shows "length (filter P xs) = length (filter P ys)"
  using assms by (simp add: distinct_length_filter)

lemma collect_loop_perm:
  assumes "distinct xs" "distinct ys" "set xs = set ys"
  shows "collect_loop result xs acc = collect_loop result ys acc"
proof (rule prod_eqI)
  show "fst (collect_loop result xs acc) = fst (collect_loop result ys acc)"
    using filter_length_perm [OF assms] by (simp add: collect_loop_fst)
  show "snd (collect_loop result xs acc) = snd (collect_loop result ys acc)"
    using filter_length_perm [OF assms] by (simp add: collect_loop_snd)
qed

lemma completed_counts:
  assumes "as_completed_ok e n"
  shows "collect_loop result (as_completed e [1..n]) acc = collect_loop result [1..n] acc"
  using assms by (intro collect_loop_perm) (simp_all add: as_completed_ok_def)

lemma generate_one_trace:
  "snd (generate_one e ua i)
     = snd (if ua then test_async_generation e (fmt_04d i)
            else test_sync_generation e (fmt_04d i))"
  by (simp add: generate_one_def Let_def)

lemma generate_one_result:
  "fst (generate_one e ua i)
     = Inr (fst (if ua then test_async_generation e (fmt_04d i)
                 else test_sync_generation e (fmt_04d i)))"
  by (simp add: generate_one_def Let_def)

text \<open>
  Claim C8. With a concurrency limit of 1 the run takes the sequential branch: no thread
  pool is made, and what happens in the run is what the task of the index 1 does from its
  beginning to its end, then what the task of the index 2 does, and so on to \<open>count\<close>:
  the tasks are executed one after another in index order. For the load test itself
  these are the lifecycles of the invoices \<open>0001\<close>, \<open>0002\<close> and so on. The counts are the
  numbers of the tasks that gave true and of those that did not, and for any fixed
  outcomes of the tasks the thread pool's branch (a limit above 1, \<open>as_completed\<close>
  yielding every future once) ends with the same success and failure counts.
\<close>

theorem sequential_when_one:
  "events (test_load_with e task count 1 ua) = concat (map (\<lambda>i. snd (task i)) [1..count])
   \<and> events (test_load e count 1 ua)
       = concat (map (\<lambda>i. snd (if ua then test_async_generation e (fmt_04d i)
                                else test_sync_generation e (fmt_04d i))) [1..count])
   \<and> consumed (test_load_with e task count 1 ua) = [1..count]
   \<and> max_workers (test_load_with e task count 1 ua) = None
   \<and> success (test_load_with e task count 1 ua)
       = int (length (filter (\<lambda>i. fst (task i) = Inr True) [1..count]))
   \<and> failed (test_load_with e task count 1 ua)
       = int (length (filter (\<lambda>i. fst (task i) \<noteq> Inr True) [1..count]))
   \<and> (1 < par \<and> as_completed_ok e count \<longrightarrow>
        success (test_load_with e task count par ua) = success (test_load_with e task count 1 ua)
        \<and> failed (test_load_with e task count par ua) = failed (test_load_with e task count 1 ua))"
proof (intro conjI impI)
  show "events (test_load_with e task count 1 ua) = concat (map (\<lambda>i. snd (task i)) [1..count])"
    by (simp add: test_load_with_def Let_def count_loop_events)
  show "events (test_load e count 1 ua)
       = concat (map (\<lambda>i. snd (if ua then test_async_generation e (fmt_04d i)
                                else test_sync_generation e (fmt_04d i))) [1..count])"
    by (simp add: test_load_def test_load_with_def Let_def count_loop_events generate_one_trace)
  show "consumed (test_load_with e task count 1 ua) = [1..count]"
    by (simp add: load_consumed)
  show "max_workers (test_load_with e task count 1 ua) = None"
    by (simp add: test_load_with_def Let_def)
  show "success (test_load_with e task count 1 ua)
       = int (length (filter (\<lambda>i. fst (task i) = Inr True) [1..count]))"
    by (simp add: load_success collect_loop_fst)
  show "failed (test_load_with e task count 1 ua)
       = int (length (filter (\<lambda>i. fst (task i) \<noteq> Inr True) [1..count]))"
    by (simp add: load_failed collect_loop_snd)
next
  assume h: "1 < par \<and> as_completed_ok e count"
  then show "success (test_load_with e task count par ua)
      = success (test_load_with e task count 1 ua)"
    by (simp add: load_success completed_counts)
  from h show "failed (test_load_with e task count par ua)
      = failed (test_load_with e task count 1 ua)"
    by (simp add: load_failed completed_counts)
qed

text \<open>
  Three tasks, one of which raises, each sleeping for as long as its index says: the
  sequential run sleeps 1, 2 and 3 seconds in this order, and the pool of two workers,
  handing the results over in reverse order, reports the counts of the sequential run.
\<close>

theorem sequential_when_one_witness:
  "(1::int) < 2 \<and> as_completed_ok (sample_env net_down) 3
   \<and> events (test_load_with (sample_env net_down) sample_task 3 1 True)
       = [Sleep 1, Sleep 2, Sleep 3]
   \<and> consumed (test_load_with (sample_env net_down) sample_task 3 1 True) = [1, 2, 3]
   \<and> success (test_load_with (sample_env net_down) sample_task 3 1 True) = 1
   \<and> failed (test_load_with (sample_env net_down) sample_task 3 1 True) = 2
   \<and> success (test_load_with (sample_env net_down) sample_task 3 2 True)
       = success (test_load_with (sample_env net_down) sample_task 3 1 True)
   \<and> failed (test_load_with (sample_env net_down) sample_task 3 2 True)
       = failed (test_load_with (sample_env net_down) sample_task 3 1 True)"
  using sequential_when_one [of "sample_env net_down" sample_task 3 True 2]
    sample_completed_ok [of net_down 3]
  by (simp add: upto_rec1 sample_task_def)

text \<open>
  Claim C9. A run of 50 tasks accounts for 50 results, and the rate it reports is 50
  divided by the duration, the difference of the two clock readings; for any count the
  rate is the count divided by the duration, when the duration is positive. Python's
  floats are taken as real numbers.
\<close>

theorem load_rate:
  assumes "1 < par \<longrightarrow> as_completed_ok e 50"
  shows "success (test_load e 50 par ua) + failed (test_load e 50 par ua) = 50
   \<and> length (consumed (test_load e 50 par ua)) = 50
   \<and> duration (test_load e count par ua) = clock e 1 - clock e 0
   \<and> (0 < duration (test_load e 50 par ua) \<longrightarrow>
        rate (test_load e 50 par ua) = 50 / duration (test_load e 50 par ua))
   \<and> (0 < duration (test_load e count par ua) \<longrightarrow>
        rate (test_load e count par ua) = real_of_int count / duration (test_load e count par ua))"
proof -
  have "int (length (consumed (test_load e 50 par ua))) = 50"
    using assms length_completed [of e 50]
    by (simp add: test_load_def load_consumed)
  then have len: "length (consumed (test_load e 50 par ua)) = 50" by simp
  have tot: "success (test_load e 50 par ua) + failed (test_load e 50 par ua) = 50"
    using assms length_completed [of e 50]
    by (simp add: test_load_def load_success load_failed collect_loop_total)
  show ?thesis
    using len tot by (simp add: test_load_def test_load_with_def Let_def)
qed

text \<open>
  Fifty lifecycles against a service that is down, five at a time, ten seconds on the
  clock: 50 results and a rate of 5 per second.
\<close>

theorem load_rate_witness:
  "as_completed_ok (sample_env net_down) 50
   \<and> success (test_load (sample_env net_down) 50 5 True)
       + failed (test_load (sample_env net_down) 50 5 True) = 50
   \<and> duration (test_load (sample_env net_down) 50 5 True) = 10
   \<and> rate (test_load (sample_env net_down) 50 5 True) = 5"
proof -
  have ok: "as_completed_ok (sample_env net_down) 50" by (rule sample_completed_ok)
  have d: "duration (test_load (sample_env net_down) 50 5 True) = 10"
    by (simp add: test_load_def test_load_with_def Let_def sample_env_def)
  from load_rate [of 5 "sample_env net_down" True 50] ok d show ?thesis by simp
qed

section \<open>Exit status, and what a task returns\<close>

lemma health_down: "fst (test_health (sample_env net_down)) = False"
  by (simp add: test_health_def sample_env_def net_down_def Let_def)

lemma async_down: "fst (test_async_generation (sample_env net_down) num) = False"
  by (simp add: test_async_generation_def async_try_def sample_env_def net_down_def Let_def)

lemma sync_down: "fst (test_sync_generation (sample_env net_down) num) = False"
  by (simp add: test_sync_generation_def sync_try_def sample_env_def net_down_def Let_def)

lemma generate_one_down: "fst (generate_one (sample_env net_down) ua i) = Inr False"
  by (simp add: generate_one_def Let_def async_down sync_down)

lemma all_failed_down:
  "failed (test_load (sample_env net_down) 3 1 True) = 3
   \<and> success (test_load (sample_env net_down) 3 1 True) = 0"
  by (simp add: test_load_def load_success load_failed generate_one_down upto_rec1)

text \<open>
  Claim C10, as stated, fails. \<open>--load 0\<close> is not taken as a request for a load test
  (\<open>args.load\<close> is tested for truth, and 0 is false): the script runs all tests and,
  with the service down, exits with status 1. And \<open>--health --load 5\<close> runs the health
  check only, whose failure is status 1: the mode flags are tested before \<open>--load\<close>.
\<close>

theorem load_exit_status_counterexample:
  "main (sample_env net_down) (no_flags\<lparr>load := Some 0\<rparr>) = 1
   \<and> main (sample_env net_down) (no_flags\<lparr>health := True, load := Some 5\<rparr>) = 1"
  by (simp add: main_def no_flags_def run_all_tests_def health_down)

text \<open>
  Claim C10, amended. With \<open>--load COUNT\<close> for a count other than 0 and none of
  \<open>--health\<close>, \<open>--sync\<close> and \<open>--async\<close>, the process exits with status 0 whatever
  the lifecycles did. The health, sync and async modes (in that order of precedence) and
  the run of all tests exit with 0 on success and 1 on failure.
\<close>

theorem load_exit_status:
  "(\<not> health a \<and> \<not> sync a \<and> \<not> async_test a \<and> load a = Some n \<and> n \<noteq> 0 \<longrightarrow> main e a = 0)
   \<and> (health a \<longrightarrow> main e a = (if fst (test_health e) then 0 else 1))
   \<and> (\<not> health a \<and> sync a \<longrightarrow>
        main e a = (if fst (test_sync_generation e ''001'') then 0 else 1))
   \<and> (\<not> health a \<and> \<not> sync a \<and> async_test a \<longrightarrow>
        main e a = (if fst (test_async_generation e ''001'') then 0 else 1))
   \<and> (\<not> health a \<and> \<not> sync a \<and> \<not> async_test a \<and> \<not> truthy (load a) \<longrightarrow>
        main e a = (if run_all_tests e then 0 else 1))"
  by (auto simp: main_def Let_def)

text \<open>
  With the service down every lifecycle of \<open>--load 3 --use-async\<close> fails and the status
  is 0; each of the other modes exits with 1.
\<close>

theorem load_exit_status_witness:
  "failed (test_load (sample_env net_down) 3 1 True) = 3
   \<and> main (sample_env net_down) (no_flags\<lparr>load := Some 3, use_async := True\<rparr>) = 0
   \<and> main (sample_env net_down) (no_flags\<lparr>health := True\<rparr>) = 1
   \<and> main (sample_env net_down) (no_flags\<lparr>sync := True\<rparr>) = 1
   \<and> main (sample_env net_down) (no_flags\<lparr>async_test := True\<rparr>) = 1
   \<and> main (sample_env net_down) no_flags = 1"
  using load_exit_status [of "no_flags\<lparr>load := Some 3, use_async := True\<rparr>" 3 "sample_env net_down"]
    load_exit_status [of "no_flags\<lparr>health := True\<rparr>" 0 "sample_env net_down"]
    load_exit_status [of "no_flags\<lparr>sync := True\<rparr>" 0 "sample_env net_down"]
    load_exit_status [of "no_flags\<lparr>async_test := True\<rparr>" 0 "sample_env net_down"]
    load_exit_status [of "no_flags" 0 "sample_env net_down"]
    all_failed_down health_down sync_down async_down
  by (simp add: no_flags_def run_all_tests_def)

lemma filter_card_indices:
  assumes "distinct xs" "set xs = {1..n}"
  shows "int (length (filter P xs)) = int (card {i \<in> {1..n}. P i})"
proof -
  have "{i \<in> {1..n}. P i} = {x. P x} \<inter> set xs" using assms(2) by auto
  then show ?thesis using assms(1) by (simp add: distinct_length_filter)
qed

lemma load_order_indices:
  assumes "1 < par \<longrightarrow> as_completed_ok e count"
  shows "distinct (if 1 < par then as_completed e [1..count] else [1..count])"
    and "set (if 1 < par then as_completed e [1..count] else [1..count]) = {1..count}"
  using assms by (simp_all add: as_completed_ok_def)

lemma load_success_card:
  assumes "1 < par \<longrightarrow> as_completed_ok e count"
  shows "success (test_load_with e task count par ua)
           = int (card {i \<in> {1..count}. fst (task i) = Inr True})"
  unfolding load_success collect_loop_fst
  using filter_card_indices [OF load_order_indices [OF assms]] by simp

lemma load_failed_card:
  assumes "1 < par \<longrightarrow> as_completed_ok e count"
  shows "failed (test_load_with e task count par ua)
           = int (card {i \<in> {1..count}. fst (task i) \<noteq> Inr True})"
  unfolding load_failed collect_loop_snd
  using filter_card_indices [OF load_order_indices [OF assms]] by simp

lemma generate_one_not_true:
  "(fst (generate_one e ua i) \<noteq> Inr True) = (fst (generate_one e ua i) = Inr False)"
  by (simp add: generate_one_def Let_def)

text \<open>
  Claim C5, as stated, fails: what a task hands to the loop is a bare boolean (the first
  component of \<open>generate_one\<close>; the second is what the task does, not a value the loop
  gets). The tasks of the indices 1 and 2 give the same value, so no function reads the
  sequence index off the value a task returns; nor does the value hold a duration or an
  error description: a failure is \<open>False\<close>, whatever it was.
\<close>

theorem load_result_counterexample:
  "fst (generate_one (sample_env net_down) True 1) = Inr False
   \<and> fst (generate_one (sample_env net_down) True 2) = Inr False
   \<and> \<not> (\<exists>index_of. \<forall>i. index_of (fst (generate_one (sample_env net_down) True i)) = i)"
proof -
  have "\<not> (\<exists>index_of. \<forall>i. index_of (fst (generate_one (sample_env net_down) True i)) = i)"
  proof
    assume "\<exists>index_of. \<forall>i. index_of (fst (generate_one (sample_env net_down) True i)) = i"
    then obtain index_of :: "py_error + bool \<Rightarrow> int"
      where h: "\<forall>i. index_of (fst (generate_one (sample_env net_down) True i)) = i" by blast
    from h have "index_of (Inr False) = 1" "index_of (Inr False) = 2"
      using generate_one_down [of True 1] generate_one_down [of True 2] by metis+
    then show False by simp
  qed
  then show ?thesis by (simp add: generate_one_down)
qed

text \<open>
  Claim C5, amended. The one value a lifecycle task of a load run gives is a boolean, its
  success flag: the value \<open>test_async_generation\<close> or \<open>test_sync_generation\<close> returns for
  the invoice number of its index, and nothing else. Each of these values is counted
  exactly once: after the run the success counter is the number of the indices from 1 to
  \<open>count\<close> whose task gave true, and the failure counter the number of those whose task
  gave false (for any task: gave false or raised). For the thread pool this rests on
  \<open>as_completed\<close> yielding every submitted future once. In the sequential run every task
  is called once, in the order of the indices.
\<close>

theorem load_result_boolean:
  assumes "1 < par \<longrightarrow> as_completed_ok e count"
  shows "fst (generate_one e ua i)
           = Inr (fst (if ua then test_async_generation e (fmt_04d i)
                       else test_sync_generation e (fmt_04d i)))
       \<and> success (test_load e count par ua)
           = int (card {i \<in> {1..count}. fst (generate_one e ua i) = Inr True})
       \<and> failed (test_load e count par ua)
           = int (card {i \<in> {1..count}. fst (generate_one e ua i) = Inr False})
       \<and> success (test_load_with e task count par ua)
           = int (card {i \<in> {1..count}. fst (task i) = Inr True})
       \<and> failed (test_load_with e task count par ua)
           = int (card {i \<in> {1..count}. fst (task i) \<noteq> Inr True})
       \<and> events (test_load_with e task count 1 ua)
           = concat (map (\<lambda>i. snd (task i)) [1..count])"
proof (intro conjI)
  show "fst (generate_one e ua i)
           = Inr (fst (if ua then test_async_generation e (fmt_04d i)
                       else test_sync_generation e (fmt_04d i)))"
    by (rule generate_one_result)
  show "success (test_load e count par ua)
           = int (card {i \<in> {1..count}. fst (generate_one e ua i) = Inr True})"
    unfolding test_load_def by (rule load_success_card [OF assms])
  show "failed (test_load e count par ua)
           = int (card {i \<in> {1..count}. fst (generate_one e ua i) = Inr False})"
    unfolding test_load_def load_failed_card [OF assms] generate_one_not_true by (rule refl)
  show "success (test_load_with e task count par ua)
           = int (card {i \<in> {1..count}. fst (task i) = Inr True})"
    by (rule load_success_card [OF assms])
  show "failed (test_load_with e task count par ua)
           = int (card {i \<in> {1..count}. fst (task i) \<noteq> Inr True})"
    by (rule load_failed_card [OF assms])
  show "events (test_load_with e task count 1 ua)
           = concat (map (\<lambda>i. snd (task i)) [1..count])"
    by (simp add: test_load_with_def Let_def count_loop_events)
qed

text \<open>
  Three lifecycles through the pool of two workers, the service down: no success, three
  failures. And three tasks of which the first succeeds, the second raises and the third
  fails: one success, two failures.
\<close>

theorem load_result_boolean_witness:
  "as_completed_ok (sample_env net_down) 3
   \<and> fst (generate_one (sample_env net_down) True 2) = Inr False
   \<and> success (test_load (sample_env net_down) 3 2 True) = 0
   \<and> failed (test_load (sample_env net_down) 3 2 True) = 3
   \<and> success (test_load_with (sample_env net_down) sample_task 3 2 True) = 1
   \<and> failed (test_load_with (sample_env net_down) sample_task 3 2 True) = 2
   \<and> events (test_load_with (sample_env net_down) sample_task 3 1 True)
       = [Sleep 1, Sleep 2, Sleep 3]"
proof -
  let ?e = "sample_env net_down"
  have ok: "as_completed_ok ?e 3" by (rule sample_completed_ok)
  have g: "fst (generate_one ?e True 2) = Inr False" by (rule generate_one_down)
  have s0: "{i \<in> {1..3::int}. fst (generate_one ?e True i) = Inr True} = {}"
    by (simp add: generate_one_down)
  have f0: "{i \<in> {1..3::int}. fst (generate_one ?e True i) = Inr False} = {1..3}"
    by (auto simp: generate_one_down)
  have s1: "{i \<in> {1..3::int}. fst (sample_task i) = Inr True} = {1}"
    by (auto simp: sample_task_def)
  have f1: "{i \<in> {1..3::int}. fst (sample_task i) \<noteq> Inr True} = {2..3}"
    by (auto simp: sample_task_def)
  have ev: "concat (map (\<lambda>i. snd (sample_task i)) [1..3]) = [Sleep 1, Sleep 2, Sleep 3]"
    by (simp add: upto_rec1 sample_task_def)
  from load_result_boolean [of 2 ?e 3 True 2 sample_task] ok
  have "success (test_load ?e 3 2 True)
          = int (card {i \<in> {1..3}. fst (generate_one ?e True i) = Inr True})"
    "failed (test_load ?e 3 2 True)
          = int (card {i \<in> {1..3}. fst (generate_one ?e True i) = Inr False})"
    "success (test_load_with ?e sample_task 3 2 True)
          = int (card {i \<in> {1..3}. fst (sample_task i) = Inr True})"
    "failed (test_load_with ?e sample_task 3 2 True)
          = int (card {i \<in> {1..3}. fst (sample_task i) \<noteq> Inr True})"
    "events (test_load_with ?e sample_task 3 1 True)
          = concat (map (\<lambda>i. snd (sample_task i)) [1..3])"
    by blast+
  then show ?thesis unfolding s0 f0 s1 f1 ev using ok g by simp
qed

section \<open>The polling loop\<close>

lemma n_http_simps [simp]:
  "n_http [] = 0"
  "n_http (ev # tr) = (if is_http ev then 1 else 0) + n_http tr"
  "n_http (tr @ tr') = n_http tr + n_http tr'"
  by (simp_all add: n_http_def)

lemma n_calls_simps [simp]:
  "n_calls c [] = 0"
  "n_calls c (ev # tr) = (if is_call c ev then 1 else 0) + n_calls c tr"
  "n_calls c (tr @ tr') = n_calls c tr + n_calls c tr'"
  by (simp_all add: n_calls_def)

lemma status_at_Some:
  assumes "status_at e j k = Some s"
  obtains r d where "net e k (status_request e j) = Inr r" "status_code r = 200"
    "json_result r = Inr d" "py_getitem d ''status'' = Inr s"
  using assms
  by (auto simp: status_at_def resp_status_def status_doc_def
      split: sum.splits if_splits option.splits)

text \<open>One turn of the loop, by what the fetch reads.\<close>

lemma poll_continue:
  assumes "status_at e j (n_http tr) = Some s" "s \<noteq> JStr ''completed''" "s \<noteq> JStr ''failed''"
  shows "poll e j (a # rest) st tr =
           poll e j rest (Some s)
             (tr @ [Sleep 1, Http JobStatusCall (status_request e j),
                    Print (''[INFO] Job status: '' @ py_str e s @ '' (attempt '' @ str_int a @ '')'')])"
proof -
  from assms(1) obtain r d where "net e (n_http tr) (status_request e j) = Inr r"
    "status_code r = 200" "json_result r = Inr d" "py_getitem d ''status'' = Inr s"
    by (rule status_at_Some)
  then show ?thesis using assms(2,3) by (simp add: Let_def)
qed

lemma poll_completed:
  assumes "status_at e j (n_http tr) = Some (JStr ''completed'')"
  shows "poll e j (a # rest) st tr =
           (LoopDone (Some (JStr ''completed'')),
            tr @ [Sleep 1, Http JobStatusCall (status_request e j),
                  Print (''[INFO] Job status: completed (attempt '' @ str_int a @ '')'')])"
proof -
  from assms(1) obtain r d where "net e (n_http tr) (status_request e j) = Inr r"
    "status_code r = 200" "json_result r = Inr d"
    "py_getitem d ''status'' = Inr (JStr ''completed'')"
    by (rule status_at_Some)
  then show ?thesis by (simp add: Let_def)
qed

text \<open>A fetch that reads \<open>failed\<close>: the loop is left by \<open>return False\<close> after the line
  about the failed job, or by the exception of a malformed \<open>error\<close> entry.\<close>

lemma poll_failed:
  assumes "net e (n_http tr) (status_request e j) = Inr r" "status_code r = 200"
    "json_result r = Inr d" "py_getitem d ''status'' = Inr (JStr ''failed'')"
  shows "poll e j (a # rest) st tr =
           (case error_message d of
              Inl ex \<Rightarrow> (Raised ex,
                tr @ [Sleep 1, Http JobStatusCall (status_request e j),
                      Print (''[INFO] Job status: failed (attempt '' @ str_int a @ '')'')])
            | Inr msg \<Rightarrow> (Returned False,
                tr @ [Sleep 1, Http JobStatusCall (status_request e j),
                      Print (''[INFO] Job status: failed (attempt '' @ str_int a @ '')''),
                      Print (''[ERROR] Job failed: '' @ py_str e msg)]))"
  using assms by (simp add: Let_def split: sum.splits)

text \<open>A fetch that reads no status: a transport exception, a status code other than
  200, a body that is not JSON or has no \<open>status\<close>.\<close>

lemma poll_no_status:
  assumes "status_at e j (n_http tr) = None"
  shows "\<exists>x t. poll e j (a # rest) st tr =
                 (x, tr @ [Sleep 1, Http JobStatusCall (status_request e j)] @ t)
               \<and> n_http t = 0 \<and> (\<forall>c. n_calls c t = 0)
               \<and> (x = Returned False \<or> (\<exists>ex. x = Raised ex))"
proof (cases "net e (n_http tr) (status_request e j)")
  case (Inl ex)
  then show ?thesis by (simp add: Let_def)
next
  case (Inr r)
  show ?thesis
  proof (cases "status_code r = 200")
    case False
    with Inr show ?thesis by (simp add: Let_def)
  next
    case True
    show ?thesis
    proof (cases "json_result r")
      case (Inl ex)
      with Inr True show ?thesis by (simp add: Let_def)
    next
      case d: (Inr d)
      show ?thesis
      proof (cases "py_getitem d ''status''")
        case (Inl ex)
        with Inr True d show ?thesis by (simp add: Let_def)
      next
        case s: (Inr s)
        with Inr True d assms show ?thesis
          by (simp add: status_at_def resp_status_def status_doc_def)
      qed
    qed
  qed
qed

lemma poll_stop:
  assumes "\<not> in_progress (status_at e j (n_http tr))"
  shows "\<exists>x t. poll e j (a # rest) st tr =
                 (x, tr @ [Sleep 1, Http JobStatusCall (status_request e j)] @ t)
               \<and> n_http t = 0 \<and> (\<forall>c. n_calls c t = 0)
               \<and> (x = Returned False \<or> (\<exists>ex. x = Raised ex)
                   \<or> x = LoopDone (Some (JStr ''completed''))
                      \<and> status_at e j (n_http tr) = Some (JStr ''completed''))"
proof (cases "status_at e j (n_http tr)")
  case None
  from poll_no_status [OF None, of a rest st] show ?thesis by blast
next
  case (Some s)
  with assms have "s = JStr ''completed'' \<or> s = JStr ''failed''"
    by (auto simp: in_progress_def)
  then show ?thesis
  proof
    assume c: "s = JStr ''completed''"
    with Some poll_completed [of e j tr a rest st] show ?thesis by simp
  next
    assume f: "s = JStr ''failed''"
    from Some f obtain r d where rd: "net e (n_http tr) (status_request e j) = Inr r"
      "status_code r = 200" "json_result r = Inr d"
      "py_getitem d ''status'' = Inr (JStr ''failed'')"
      by (auto elim: status_at_Some)
    show ?thesis
      using poll_failed [OF rd, of a rest st] by (cases "error_message d") simp_all
  qed
qed


lemma in_progress_Some:
  assumes "in_progress st"
  obtains s where "st = Some s" "s \<noteq> JStr ''completed''" "s \<noteq> JStr ''failed''"
  using assms by (cases st) (auto simp: in_progress_def)

text \<open>The loop only adds to the trace; each turn makes one status fetch, and there are
  no more turns than attempts.\<close>

lemma poll_trace:
  "\<exists>t. snd (poll e j as st tr) = tr @ t \<and> n_calls JobStatusCall t \<le> length as
       \<and> n_http t = n_calls JobStatusCall t \<and> n_calls DownloadCall t = 0"
proof (induction as arbitrary: st tr)
  case Nil
  show ?case by simp
next
  case (Cons a as)
  show ?case
  proof (cases "in_progress (status_at e j (n_http tr))")
    case True
    then obtain s where s: "status_at e j (n_http tr) = Some s"
      "s \<noteq> JStr ''completed''" "s \<noteq> JStr ''failed''"
      by (rule in_progress_Some)
    define ev where "ev = [Sleep 1, Http JobStatusCall (status_request e j),
      Print (''[INFO] Job status: '' @ py_str e s @ '' (attempt '' @ str_int a @ '')'')]"
    have step: "poll e j (a # as) st tr = poll e j as (Some s) (tr @ ev)"
      unfolding ev_def using s by (rule poll_continue)
    from Cons.IH [of "Some s" "tr @ ev"] obtain t where
      t: "snd (poll e j as (Some s) (tr @ ev)) = (tr @ ev) @ t"
        "n_calls JobStatusCall t \<le> length as" "n_http t = n_calls JobStatusCall t"
        "n_calls DownloadCall t = 0"
      by blast
    have "snd (poll e j (a # as) st tr) = tr @ (ev @ t)" using step t(1) by simp
    moreover have "n_calls JobStatusCall (ev @ t) \<le> length (a # as)"
      using t(2) by (simp add: ev_def)
    moreover have "n_http (ev @ t) = n_calls JobStatusCall (ev @ t)"
      using t(3) by (simp add: ev_def)
    moreover have "n_calls DownloadCall (ev @ t) = 0" using t(4) by (simp add: ev_def)
    ultimately show ?thesis by blast
  next
    case False
    from poll_stop [OF False, of a as st] obtain x t where
      xt: "poll e j (a # as) st tr = (x, tr @ [Sleep 1, Http JobStatusCall (status_request e j)] @ t)"
        "n_http t = 0" "\<forall>c. n_calls c t = 0"
      by blast
    let ?t = "[Sleep 1, Http JobStatusCall (status_request e j)] @ t"
    have "snd (poll e j (a # as) st tr) = tr @ ?t" using xt(1) by simp
    moreover have "n_calls JobStatusCall ?t \<le> length (a # as)" using xt(3) by simp
    moreover have "n_http ?t = n_calls JobStatusCall ?t" using xt(2,3) by simp
    moreover have "n_calls DownloadCall ?t = 0" using xt(3) by simp
    ultimately show ?thesis by blast
  qed
qed

text \<open>A fetch that does not read a status in progress is the last one: when the fetch
  with the index \<open>n_http tr + i\<close> is such a fetch, the loop makes at most \<open>i + 1\<close>.\<close>

lemma poll_halts:
  assumes "\<not> in_progress (status_at e j (n_http tr + i))"
  shows "\<exists>t. snd (poll e j as st tr) = tr @ t \<and> n_calls JobStatusCall t \<le> i + 1"
  using assms
proof (induction as arbitrary: st tr i)
  case Nil
  show ?case by simp
next
  case (Cons a as)
  show ?case
  proof (cases "in_progress (status_at e j (n_http tr))")
    case True
    with Cons.prems have i: "i \<noteq> 0" by (cases i) auto
    from True obtain s where s: "status_at e j (n_http tr) = Some s"
      "s \<noteq> JStr ''completed''" "s \<noteq> JStr ''failed''"
      by (rule in_progress_Some)
    define ev where "ev = [Sleep 1, Http JobStatusCall (status_request e j),
      Print (''[INFO] Job status: '' @ py_str e s @ '' (attempt '' @ str_int a @ '')'')]"
    have step: "poll e j (a # as) st tr = poll e j as (Some s) (tr @ ev)"
      unfolding ev_def using s by (rule poll_continue)
    have eq: "n_http (tr @ ev) + (i - 1) = n_http tr + i" using i by (simp add: ev_def)
    have "\<not> in_progress (status_at e j (n_http (tr @ ev) + (i - 1)))"
      unfolding eq by (rule Cons.prems)
    from Cons.IH [OF this, of "Some s"] obtain t where
      t: "snd (poll e j as (Some s) (tr @ ev)) = (tr @ ev) @ t"
        "n_calls JobStatusCall t \<le> i - 1 + 1"
      by blast
    have "snd (poll e j (a # as) st tr) = tr @ (ev @ t)" using step t(1) by simp
    moreover have "n_calls JobStatusCall (ev @ t) \<le> i + 1" using t(2) i by (simp add: ev_def)
    ultimately show ?thesis by blast
  next
    case False
    from poll_stop [OF False, of a as st] obtain x t where
      xt: "poll e j (a # as) st tr = (x, tr @ [Sleep 1, Http JobStatusCall (status_request e j)] @ t)"
        "\<forall>c. n_calls c t = 0"
      by blast
    let ?t = "[Sleep 1, Http JobStatusCall (status_request e j)] @ t"
    have "snd (poll e j (a # as) st tr) = tr @ ?t" using xt(1) by simp
    moreover have "n_calls JobStatusCall ?t \<le> i + 1" using xt(2) by simp
    ultimately show ?thesis by blast
  qed
qed

text \<open>While the fetches read a status in progress the loop goes on: \<open>k\<close> such fetches
  are \<open>k\<close> turns.\<close>

lemma poll_skip:
  assumes "\<forall>i<k. in_progress (status_at e j (n_http tr + i))" "k \<le> length as"
  shows "\<exists>t st'. poll e j as st tr = poll e j (drop k as) st' (tr @ t)
           \<and> n_http t = k \<and> n_calls JobStatusCall t = k \<and> n_calls DownloadCall t = 0
           \<and> (k = 0 \<longrightarrow> st' = st) \<and> (0 < k \<longrightarrow> in_progress st')"
  using assms
proof (induction k arbitrary: as st tr)
  case 0
  have "poll e j as st tr = poll e j (drop 0 as) st (tr @ [])" by simp
  then show ?case by (intro exI [of _ "[]"] exI [of _ st]) simp
next
  case (Suc k)
  from Suc.prems(2) obtain a rest where as: "as = a # rest" by (cases as) auto
  from Suc.prems(1) have "in_progress (status_at e j (n_http tr))" by force
  then obtain s where s: "status_at e j (n_http tr) = Some s"
    "s \<noteq> JStr ''completed''" "s \<noteq> JStr ''failed''"
    by (rule in_progress_Some)
  define ev where "ev = [Sleep 1, Http JobStatusCall (status_request e j),
    Print (''[INFO] Job status: '' @ py_str e s @ '' (attempt '' @ str_int a @ '')'')]"
  have step: "poll e j (a # rest) st tr = poll e j rest (Some s) (tr @ ev)"
    unfolding ev_def using s by (rule poll_continue)
  have ev: "n_http ev = 1" "n_calls JobStatusCall ev = 1" "n_calls DownloadCall ev = 0"
    by (simp_all add: ev_def)
  have h1: "\<forall>i<k. in_progress (status_at e j (n_http (tr @ ev) + i))"
  proof (intro allI impI)
    fix i assume "i < k"
    then have "Suc i < Suc k" by simp
    with Suc.prems(1) have "in_progress (status_at e j (n_http tr + Suc i))" by blast
    then show "in_progress (status_at e j (n_http (tr @ ev) + i))" using ev(1) by simp
  qed
  have h2: "k \<le> length rest" using Suc.prems(2) as by simp
  from Suc.IH [OF h1 h2, of "Some s"] obtain t st' where
    t: "poll e j rest (Some s) (tr @ ev) = poll e j (drop k rest) st' ((tr @ ev) @ t)"
      "n_http t = k" "n_calls JobStatusCall t = k" "n_calls DownloadCall t = 0"
      "k = 0 \<longrightarrow> st' = Some s" "0 < k \<longrightarrow> in_progress st'"
    by (elim exE conjE) (rule that, assumption+)
  have sp: "in_progress st'"
  proof (cases "k = 0")
    case True
    with t(5) s show ?thesis by (simp add: in_progress_def)
  next
    case False
    with t(6) show ?thesis by simp
  qed
  have "poll e j as st tr = poll e j (drop (Suc k) as) st' (tr @ (ev @ t))"
    using step t(1) as by simp
  moreover have "n_http (ev @ t) = Suc k" "n_calls JobStatusCall (ev @ t) = Suc k"
    "n_calls DownloadCall (ev @ t) = 0"
    using ev t(2,3,4) by simp_all
  ultimately show ?case using sp by blast
qed


lemma save_output_trace:
  "\<exists>x t. save_output e l f r tr = (x, tr @ t) \<and> n_http t = 0 \<and> (\<forall>c. n_calls c t = 0)"
  by (simp add: save_output_def Let_def split: option.splits)

lemma download_result_trace:
  "\<exists>x t. download_result e num j tr = (x, tr @ Http DownloadCall (download_request e j) # t)
         \<and> n_http t = 0 \<and> (\<forall>c. n_calls c t = 0)"
proof (cases "net e (n_http tr) (download_request e j)")
  case (Inl ex)
  then show ?thesis by (simp add: download_result_def Let_def)
next
  case (Inr r)
  show ?thesis
  proof (cases "status_code r = 200")
    case False
    with Inr show ?thesis by (simp add: download_result_def Let_def)
  next
    case True
    obtain x t where "save_output e ''Async''
        (path_join (OUTPUT_DIR e) (''async-invoice-'' @ num @ ''.pdf'')) r
        (tr @ [Http DownloadCall (download_request e j)])
        = (x, (tr @ [Http DownloadCall (download_request e j)]) @ t)"
      "n_http t = 0" "\<forall>c. n_calls c t = 0"
      using save_output_trace by blast
    with Inr True show ?thesis by (simp add: download_result_def Let_def)
  qed
qed

lemma download_result_refused:
  assumes "net e (n_http tr) (download_request e j) = Inr r" "status_code r \<noteq> 200"
  shows "fst (download_result e num j tr) = Inr False"
  using assms by (simp add: download_result_def Let_def)

lemma created_trace_calls [simp]:
  "n_http (created_trace e num j) = 1"
  "n_calls JobStatusCall (created_trace e num j) = 0"
  "n_calls DownloadCall (created_trace e num j) = 0"
  by (simp_all add: created_trace_def)

lemma async_not_created:
  assumes "created_job e num = None"
  shows "\<exists>t. test_async_generation e num = (False, t) \<and> (\<forall>c. c \<noteq> CreateJobCall \<longrightarrow> n_calls c t = 0)"
proof (cases "net e 0 (create_request e num)")
  case (Inl ex)
  then show ?thesis by (simp add: test_async_generation_def async_try_def Let_def)
next
  case (Inr r)
  show ?thesis
  proof (cases "status_code r = 202")
    case False
    with Inr show ?thesis by (simp add: test_async_generation_def async_try_def Let_def)
  next
    case True
    show ?thesis
    proof (cases "json_result r")
      case (Inl ex)
      with Inr True show ?thesis by (simp add: test_async_generation_def async_try_def Let_def)
    next
      case d: (Inr d)
      show ?thesis
      proof (cases "py_getitem d ''job_id''")
        case (Inl ex)
        with Inr True d show ?thesis
          by (simp add: test_async_generation_def async_try_def Let_def)
      next
        case (Inr j)
        with \<open>net e 0 (create_request e num) = Inr r\<close> True d assms show ?thesis
          by (simp add: created_job_def)
      qed
    qed
  qed
qed

lemma async_created:
  assumes "created_job e num = Some j"
  shows "test_async_generation e num =
           (case poll_and_download e num j (created_trace e num j) of
              (Inr b, tr) \<Rightarrow> (b, tr)
            | (Inl ex, tr) \<Rightarrow>
                (False, tr @ [Print (''[ERROR] Async generation failed: '' @ str_exn e ex)]))"
proof -
  from assms obtain r d where "net e 0 (create_request e num) = Inr r" "status_code r = 202"
    "json_result r = Inr d" "py_getitem d ''job_id'' = Inr j"
    by (auto simp: created_job_def split: sum.splits if_splits)
  then show ?thesis
    by (simp add: test_async_generation_def async_try_def Let_def created_trace_def)
qed


lemma attempts_length [simp]: "length [1..max_attempts] = 30" "nat max_attempts = 30"
  by (simp_all add: max_attempts_def)

lemma pad_fetches:
  "n_calls JobStatusCall (snd (poll_and_download e num j tr))
     = n_calls JobStatusCall (snd (poll e j [1..max_attempts] None tr))"
proof (cases "poll e j [1..max_attempts] None tr")
  case (Pair x tr')
  show ?thesis
  proof (cases x)
    case (LoopDone st)
    show ?thesis
    proof (cases st)
      case None
      with Pair LoopDone show ?thesis by (simp add: poll_and_download_def)
    next
      case (Some s)
      obtain y t where "download_result e num j tr'
          = (y, tr' @ Http DownloadCall (download_request e j) # t)" "\<forall>c. n_calls c t = 0"
        using download_result_trace by blast
      with Pair LoopDone Some show ?thesis by (simp add: poll_and_download_def)
    qed
  next
    case (Returned b)
    with Pair show ?thesis by (simp add: poll_and_download_def)
  next
    case (Raised ex)
    with Pair show ?thesis by (simp add: poll_and_download_def)
  qed
qed

lemma async_calls:
  assumes "created_job e num = Some j"
  shows "n_calls c (snd (test_async_generation e num))
           = n_calls c (snd (poll_and_download e num j (created_trace e num j)))"
  unfolding async_created [OF assms]
  by (cases "poll_and_download e num j (created_trace e num j)")
     (simp split: sum.splits)

lemma async_fetch_bound: "n_calls JobStatusCall (snd (test_async_generation e num)) \<le> 30"
proof (cases "created_job e num")
  case None
  from async_not_created [OF None] show ?thesis by auto
next
  case (Some j)
  obtain t where t: "snd (poll e j [1..max_attempts] None (created_trace e num j))
      = created_trace e num j @ t" "n_calls JobStatusCall t \<le> length [1..max_attempts]"
    using poll_trace by blast
  show ?thesis
    unfolding async_calls [OF Some] pad_fetches using t by simp
qed

lemma async_halts:
  assumes "created_job e num = Some j" "1 \<le> k" "\<not> in_progress (status_at e j k)"
  shows "n_calls JobStatusCall (snd (test_async_generation e num)) \<le> k"
proof -
  have eq: "n_http (created_trace e num j) + (k - 1) = k" using assms(2) by simp
  have "\<not> in_progress (status_at e j (n_http (created_trace e num j) + (k - 1)))"
    unfolding eq by (rule assms(3))
  from poll_halts [OF this, of "[1..max_attempts]" None] obtain t where
    t: "snd (poll e j [1..max_attempts] None (created_trace e num j))
      = created_trace e num j @ t" "n_calls JobStatusCall t \<le> k - 1 + 1"
    by blast
  show ?thesis
    unfolding async_calls [OF assms(1)] pad_fetches using t assms(2) by simp
qed

lemma async_timeout:
  assumes "created_job e num = Some j" "\<forall>i<30. in_progress (status_at e j (1 + i))"
  shows "\<exists>t. test_async_generation e num = (False, t @ [Print ''[ERROR] Job timed out''])
           \<and> n_calls JobStatusCall t = 30 \<and> n_calls DownloadCall t = 0"
proof -
  let ?tr = "created_trace e num j"
  have h: "\<forall>i<30. in_progress (status_at e j (n_http ?tr + i))" using assms(2) by simp
  from poll_skip [OF h, of "[1..max_attempts]" None] obtain t st' where
    t: "poll e j [1..max_attempts] None ?tr = poll e j (drop 30 [1..max_attempts]) st' (?tr @ t)"
      "n_calls JobStatusCall t = 30" "n_calls DownloadCall t = 0" "in_progress st'"
    by auto
  from t(4) obtain s where s: "st' = Some s" "s \<noteq> JStr ''completed''"
    by (rule in_progress_Some)
  have "poll e j [1..max_attempts] None ?tr = (LoopDone (Some s), ?tr @ t)"
    using t(1) s(1) by simp
  then have "poll_and_download e num j ?tr = (Inr False, (?tr @ t) @ [Print ''[ERROR] Job timed out''])"
    using s(2) by (simp add: poll_and_download_def)
  then have "test_async_generation e num = (False, (?tr @ t) @ [Print ''[ERROR] Job timed out''])"
    unfolding async_created [OF assms(1)] by simp
  moreover have "n_calls JobStatusCall (?tr @ t) = 30" "n_calls DownloadCall (?tr @ t) = 0"
    using t(2,3) by simp_all
  ultimately show ?thesis by blast
qed


lemma sample_created:
  "created_job (sample_env (sample_net docs dl)) num = Some (JStr ''job-1'')"
  by (simp add: created_job_def sample_env_def sample_net_def json_response_def)

lemma sample_status_at:
  "0 < k \<Longrightarrow> status_at (sample_env (sample_net docs dl)) (JStr ''job-1'') k
     = (case py_getitem (docs k) ''status'' of Inl ex \<Rightarrow> None | Inr s \<Rightarrow> Some s)"
  by (simp add: status_at_def resp_status_def status_doc_def sample_env_def sample_net_def
      json_response_def status_request_def)

text \<open>
  Claim C2. An asynchronous lifecycle makes at most 30 status fetches. A fetch that reads
  \<open>completed\<close> or \<open>failed\<close> is the last one: when the \<open>k\<close>-th fetch reads one of them,
  no more than \<open>k\<close> fetches are made. A job that reads \<open>queued\<close> or \<open>processing\<close> at all
  30 fetches ends in a failure, after exactly 30 fetches and without a download: the
  lifecycle returns \<open>False\<close> and its last line says that the job timed out.
\<close>

theorem polling_bounded:
  "n_calls JobStatusCall (snd (test_async_generation e num)) \<le> 30
   \<and> (created_job e num = Some j \<and> 1 \<le> k
        \<and> (status_at e j k = Some (JStr ''completed'') \<or> status_at e j k = Some (JStr ''failed''))
      \<longrightarrow> n_calls JobStatusCall (snd (test_async_generation e num)) \<le> k)
   \<and> (created_job e num = Some j
        \<and> (\<forall>i\<in>{1..30}. status_at e j i = Some (JStr ''queued'')
                         \<or> status_at e j i = Some (JStr ''processing''))
      \<longrightarrow> fst (test_async_generation e num) = False
          \<and> n_calls JobStatusCall (snd (test_async_generation e num)) = 30
          \<and> n_calls DownloadCall (snd (test_async_generation e num)) = 0
          \<and> last (snd (test_async_generation e num)) = Print ''[ERROR] Job timed out'')"
proof (intro conjI impI)
  show "n_calls JobStatusCall (snd (test_async_generation e num)) \<le> 30"
    by (rule async_fetch_bound)
next
  assume h: "created_job e num = Some j \<and> 1 \<le> k
    \<and> (status_at e j k = Some (JStr ''completed'') \<or> status_at e j k = Some (JStr ''failed''))"
  then have "\<not> in_progress (status_at e j k)" by (auto simp: in_progress_def)
  with h show "n_calls JobStatusCall (snd (test_async_generation e num)) \<le> k"
    by (intro async_halts) simp_all
next
  assume h: "created_job e num = Some j
    \<and> (\<forall>i\<in>{1..30}. status_at e j i = Some (JStr ''queued'')
                     \<or> status_at e j i = Some (JStr ''processing''))"
  have "\<forall>i<30. in_progress (status_at e j (1 + i))"
  proof (intro allI impI)
    fix i :: nat assume "i < 30"
    then have "1 + i \<in> {1..30}" by simp
    with h have "status_at e j (1 + i) = Some (JStr ''queued'')
        \<or> status_at e j (1 + i) = Some (JStr ''processing'')" by blast
    then show "in_progress (status_at e j (1 + i))" by (auto simp: in_progress_def)
  qed
  with h obtain t where t: "test_async_generation e num = (False, t @ [Print ''[ERROR] Job timed out''])"
    "n_calls JobStatusCall t = 30" "n_calls DownloadCall t = 0"
    using async_timeout [of e num j] by blast
  show "fst (test_async_generation e num) = False" using t by simp
  show "n_calls JobStatusCall (snd (test_async_generation e num)) = 30" using t by simp
  show "n_calls DownloadCall (snd (test_async_generation e num)) = 0" using t by simp
  show "last (snd (test_async_generation e num)) = Print ''[ERROR] Job timed out''"
    using t by simp
qed

text \<open>
  A job that stays \<open>processing\<close> for ever: 30 fetches and a failure. A job that is
  \<open>queued\<close>, \<open>processing\<close>, \<open>completed\<close>: no more than three fetches.
\<close>

theorem polling_bounded_witness:
  "created_job (sample_env (sample_net always_processing 200)) ''0001'' = Some (JStr ''job-1'')
   \<and> (\<forall>i. status_at (sample_env (sample_net always_processing 200)) (JStr ''job-1'') (Suc i)
            = Some (JStr ''processing''))
   \<and> fst (test_async_generation (sample_env (sample_net always_processing 200)) ''0001'') = False
   \<and> n_calls JobStatusCall
        (snd (test_async_generation (sample_env (sample_net always_processing 200)) ''0001'')) = 30
   \<and> status_at (sample_env (sample_net completed_third 200)) (JStr ''job-1'') 3
        = Some (JStr ''completed'')
   \<and> n_calls JobStatusCall
        (snd (test_async_generation (sample_env (sample_net completed_third 200)) ''0001'')) \<le> 3"
proof -
  let ?e = "sample_env (sample_net always_processing 200)"
  let ?c = "sample_env (sample_net completed_third 200)"
  have c: "created_job ?e ''0001'' = Some (JStr ''job-1'')"
    "created_job ?c ''0001'' = Some (JStr ''job-1'')"
    by (rule sample_created)+
  have p: "\<forall>i. status_at ?e (JStr ''job-1'') (Suc i) = Some (JStr ''processing'')"
    by (simp add: sample_status_at always_processing_def)
  have p': "\<forall>i\<in>{1..30}. status_at ?e (JStr ''job-1'') i = Some (JStr ''queued'')
                         \<or> status_at ?e (JStr ''job-1'') i = Some (JStr ''processing'')"
    by (simp add: sample_status_at always_processing_def)
  have d: "status_at ?c (JStr ''job-1'') 3 = Some (JStr ''completed'')"
    by (simp add: sample_status_at completed_third_def)
  from polling_bounded [of ?e "''0001''" "JStr ''job-1''" 1] c(1) p'
  have "fst (test_async_generation ?e ''0001'') = False"
    "n_calls JobStatusCall (snd (test_async_generation ?e ''0001'')) = 30"
    by blast+
  moreover from polling_bounded [of ?c "''0001''" "JStr ''job-1''" 3] c(2) d
  have "n_calls JobStatusCall (snd (test_async_generation ?c ''0001'')) \<le> 3"
    by simp
  ultimately show ?thesis using c p d by blast
qed

section \<open>Terminal outcomes of a lifecycle\<close>

lemma drop_attempts:
  assumes "k < 30"
  obtains a rest where "drop k [1..max_attempts] = a # rest"
proof -
  have "length (drop k [1..max_attempts]) \<noteq> 0" using assms by simp
  then show ?thesis using that by (cases "drop k [1..max_attempts]") auto
qed

text \<open>The fetches read a status in progress \<open>k\<close> times, then \<open>failed\<close>.\<close>

lemma async_failed_at:
  assumes c: "created_job e num = Some j"
    and p: "\<forall>i<k. in_progress (status_at e j (1 + i))" and k: "k < 30"
    and r: "net e (1 + k) (status_request e j) = Inr r" "status_code r = 200"
      "json_result r = Inr d" "py_getitem d ''status'' = Inr (JStr ''failed'')"
  shows "\<exists>t. test_async_generation e num =
             (False, t @ [Print (case error_message d of
                   Inl ex \<Rightarrow> ''[ERROR] Async generation failed: '' @ str_exn e ex
                 | Inr msg \<Rightarrow> ''[ERROR] Job failed: '' @ py_str e msg)])
           \<and> n_calls JobStatusCall t = k + 1 \<and> n_calls DownloadCall t = 0"
proof -
  let ?tr = "created_trace e num j"
  have h: "\<forall>i<k. in_progress (status_at e j (n_http ?tr + i))" using p by simp
  have kl: "k \<le> length [1..max_attempts]" using k by simp
  from poll_skip [OF h kl, of None] obtain t st' where
    t: "poll e j [1..max_attempts] None ?tr = poll e j (drop k [1..max_attempts]) st' (?tr @ t)"
      "n_http t = k" "n_calls JobStatusCall t = k" "n_calls DownloadCall t = 0"
    by (elim exE conjE) (rule that, assumption+)
  from k obtain a rest where ar: "drop k [1..max_attempts] = a # rest" by (rule drop_attempts)
  have r': "net e (n_http (?tr @ t)) (status_request e j) = Inr r" using r(1) t(2) by simp
  let ?ev = "[Sleep 1, Http JobStatusCall (status_request e j),
              Print (''[INFO] Job status: failed (attempt '' @ str_int a @ '')'')]"
  show ?thesis
  proof (cases "error_message d")
    case (Inl ex)
    have "poll e j [1..max_attempts] None ?tr = (Raised ex, (?tr @ t) @ ?ev)"
      using poll_failed [OF r' r(2,3,4), of a rest st'] t(1) ar Inl by simp
    then have "test_async_generation e num
        = (False, ((?tr @ t) @ ?ev) @ [Print (''[ERROR] Async generation failed: '' @ str_exn e ex)])"
      unfolding async_created [OF c] by (simp add: poll_and_download_def)
    moreover have "n_calls JobStatusCall ((?tr @ t) @ ?ev) = k + 1"
      "n_calls DownloadCall ((?tr @ t) @ ?ev) = 0"
      using t(3,4) by simp_all
    ultimately show ?thesis using Inl by (intro exI [of _ "(?tr @ t) @ ?ev"]) simp
  next
    case (Inr msg)
    have "poll e j [1..max_attempts] None ?tr
        = (Returned False, ((?tr @ t) @ ?ev) @ [Print (''[ERROR] Job failed: '' @ py_str e msg)])"
      using poll_failed [OF r' r(2,3,4), of a rest st'] t(1) ar Inr by simp
    then have "test_async_generation e num
        = (False, ((?tr @ t) @ ?ev) @ [Print (''[ERROR] Job failed: '' @ py_str e msg)])"
      unfolding async_created [OF c] by (simp add: poll_and_download_def)
    moreover have "n_calls JobStatusCall ((?tr @ t) @ ?ev) = k + 1"
      "n_calls DownloadCall ((?tr @ t) @ ?ev) = 0"
      using t(3,4) by simp_all
    ultimately show ?thesis using Inr by (intro exI [of _ "(?tr @ t) @ ?ev"]) simp
  qed
qed

text \<open>The fetches read a status in progress \<open>k\<close> times, then \<open>completed\<close>: the download
  follows, as the HTTP call with the index \<open>k + 2\<close>.\<close>

lemma async_completed_at:
  assumes c: "created_job e num = Some j"
    and p: "\<forall>i<k. in_progress (status_at e j (1 + i))" and k: "k < 30"
    and d: "status_at e j (1 + k) = Some (JStr ''completed'')"
  shows "\<exists>t. test_async_generation e num =
             (case download_result e num j t of
                (Inr b, tr) \<Rightarrow> (b, tr)
              | (Inl ex, tr) \<Rightarrow>
                  (False, tr @ [Print (''[ERROR] Async generation failed: '' @ str_exn e ex)]))
           \<and> n_http t = k + 2 \<and> n_calls JobStatusCall t = k + 1 \<and> n_calls DownloadCall t = 0"
proof -
  let ?tr = "created_trace e num j"
  have h: "\<forall>i<k. in_progress (status_at e j (n_http ?tr + i))" using p by simp
  have kl: "k \<le> length [1..max_attempts]" using k by simp
  from poll_skip [OF h kl, of None] obtain t st' where
    t: "poll e j [1..max_attempts] None ?tr = poll e j (drop k [1..max_attempts]) st' (?tr @ t)"
      "n_http t = k" "n_calls JobStatusCall t = k" "n_calls DownloadCall t = 0"
    by (elim exE conjE) (rule that, assumption+)
  from k obtain a rest where ar: "drop k [1..max_attempts] = a # rest" by (rule drop_attempts)
  have d': "status_at e j (n_http (?tr @ t)) = Some (JStr ''completed'')" using d t(2) by simp
  let ?ev = "[Sleep 1, Http JobStatusCall (status_request e j),
              Print (''[INFO] Job status: completed (attempt '' @ str_int a @ '')'')]"
  have "poll e j [1..max_attempts] None ?tr = (LoopDone (Some (JStr ''completed'')), (?tr @ t) @ ?ev)"
    using poll_completed [OF d', of a rest st'] t(1) ar by simp
  then have "test_async_generation e num =
      (case download_result e num j ((?tr @ t) @ ?ev) of
         (Inr b, tr) \<Rightarrow> (b, tr)
       | (Inl ex, tr) \<Rightarrow>
           (False, tr @ [Print (''[ERROR] Async generation failed: '' @ str_exn e ex)]))"
    unfolding async_created [OF c] by (simp add: poll_and_download_def)
  moreover have "n_http ((?tr @ t) @ ?ev) = k + 2" "n_calls JobStatusCall ((?tr @ t) @ ?ev) = k + 1"
    "n_calls DownloadCall ((?tr @ t) @ ?ev) = 0"
    using t(2,3,4) by simp_all
  ultimately show ?thesis by blast
qed

text \<open>
  Claim C6. When the first status fetch of an asynchronous lifecycle reads \<open>failed\<close>, the
  lifecycle ends as a failure after this one fetch, without a download call.
\<close>

theorem failed_first_fetch:
  assumes "created_job e num = Some j" "status_at e j 1 = Some (JStr ''failed'')"
  shows "fst (test_async_generation e num) = False
       \<and> n_calls JobStatusCall (snd (test_async_generation e num)) = 1
       \<and> n_calls DownloadCall (snd (test_async_generation e num)) = 0"
proof -
  from assms(2) obtain r d where r: "net e (1 + 0) (status_request e j) = Inr r"
    "status_code r = 200" "json_result r = Inr d" "py_getitem d ''status'' = Inr (JStr ''failed'')"
    by (auto elim: status_at_Some)
  have p: "\<forall>i<0::nat. in_progress (status_at e j (1 + i))" by simp
  from async_failed_at [OF assms(1) p _ r] obtain t where
    "test_async_generation e num =
       (False, t @ [Print (case error_message d of
             Inl ex \<Rightarrow> ''[ERROR] Async generation failed: '' @ str_exn e ex
           | Inr msg \<Rightarrow> ''[ERROR] Job failed: '' @ py_str e msg)])"
    "n_calls JobStatusCall t = 0 + 1" "n_calls DownloadCall t = 0"
    by auto
  then show ?thesis by simp
qed

text \<open>
  A job the service reports as failed at once, with an error message.
\<close>

theorem failed_first_fetch_witness:
  "created_job (sample_env (sample_net failed_first 200)) ''0001'' = Some (JStr ''job-1'')
   \<and> status_at (sample_env (sample_net failed_first 200)) (JStr ''job-1'') 1 = Some (JStr ''failed'')
   \<and> fst (test_async_generation (sample_env (sample_net failed_first 200)) ''0001'') = False
   \<and> n_calls JobStatusCall
        (snd (test_async_generation (sample_env (sample_net failed_first 200)) ''0001'')) = 1
   \<and> n_calls DownloadCall
        (snd (test_async_generation (sample_env (sample_net failed_first 200)) ''0001'')) = 0"
proof -
  let ?e = "sample_env (sample_net failed_first 200)"
  have c: "created_job ?e ''0001'' = Some (JStr ''job-1'')" by (rule sample_created)
  have f: "status_at ?e (JStr ''job-1'') 1 = Some (JStr ''failed'')"
    by (simp add: sample_status_at failed_first_def)
  from failed_first_fetch [OF c f] c f show ?thesis by simp
qed

lemma sample_download:
  "0 < k \<Longrightarrow> net (sample_env (sample_net docs dl)) k
      (download_request (sample_env (sample_net docs dl)) (JStr ''job-1''))
     = Inr (json_response dl JNull)"
  by (simp add: sample_env_def sample_net_def download_request_def)

text \<open>
  Claim C7. When polling reaches \<open>completed\<close> (after \<open>k\<close> fetches that read a status in
  progress) and the download call that follows is answered with a status code other than
  200, the lifecycle is a failure: it returns \<open>False\<close>, after \<open>k + 1\<close> status fetches and one
  download call.
\<close>

theorem refused_download_fails:
  assumes "created_job e num = Some j" "k < 30"
    "\<forall>i<k. in_progress (status_at e j (1 + i))"
    "status_at e j (1 + k) = Some (JStr ''completed'')"
    "net e (k + 2) (download_request e j) = Inr r" "status_code r \<noteq> 200"
  shows "fst (test_async_generation e num) = False
       \<and> n_calls JobStatusCall (snd (test_async_generation e num)) = k + 1
       \<and> n_calls DownloadCall (snd (test_async_generation e num)) = 1"
proof -
  from async_completed_at [OF assms(1,3,2,4)] obtain t where
    t: "test_async_generation e num =
          (case download_result e num j t of
             (Inr b, tr) \<Rightarrow> (b, tr)
           | (Inl ex, tr) \<Rightarrow>
               (False, tr @ [Print (''[ERROR] Async generation failed: '' @ str_exn e ex)]))"
      "n_http t = k + 2" "n_calls JobStatusCall t = k + 1" "n_calls DownloadCall t = 0"
    by (elim exE conjE) (rule that, assumption+)
  have n: "net e (n_http t) (download_request e j) = Inr r" using assms(5) t(2) by simp
  obtain x t' where x: "download_result e num j t
      = (x, t @ Http DownloadCall (download_request e j) # t')" "\<forall>c. n_calls c t' = 0"
    using download_result_trace by blast
  have "fst (download_result e num j t) = Inr False"
    using n assms(6) by (rule download_result_refused)
  with x(1) have "x = Inr False" by simp
  with t x show ?thesis by simp
qed

text \<open>
  A job that is \<open>queued\<close>, \<open>processing\<close>, \<open>completed\<close>, and a download answered with 500.
\<close>

theorem refused_download_fails_witness:
  "created_job (sample_env (sample_net completed_third 500)) ''0001'' = Some (JStr ''job-1'')
   \<and> in_progress (status_at (sample_env (sample_net completed_third 500)) (JStr ''job-1'') 1)
   \<and> in_progress (status_at (sample_env (sample_net completed_third 500)) (JStr ''job-1'') 2)
   \<and> status_at (sample_env (sample_net completed_third 500)) (JStr ''job-1'') 3
        = Some (JStr ''completed'')
   \<and> status_code (json_response 500 JNull) \<noteq> 200
   \<and> fst (test_async_generation (sample_env (sample_net completed_third 500)) ''0001'') = False
   \<and> n_calls JobStatusCall
        (snd (test_async_generation (sample_env (sample_net completed_third 500)) ''0001'')) = 3
   \<and> n_calls DownloadCall
        (snd (test_async_generation (sample_env (sample_net completed_third 500)) ''0001'')) = 1"
proof -
  let ?e = "sample_env (sample_net completed_third 500)"
  have c: "created_job ?e ''0001'' = Some (JStr ''job-1'')" by (rule sample_created)
  have p1: "in_progress (status_at ?e (JStr ''job-1'') 1)"
    and p2: "in_progress (status_at ?e (JStr ''job-1'') 2)"
    by (simp_all add: sample_status_at completed_third_def in_progress_def)
  have p: "\<forall>i<2::nat. in_progress (status_at ?e (JStr ''job-1'') (1 + i))"
  proof (intro allI impI)
    fix i :: nat assume "i < 2"
    then have "i = 0 \<or> i = 1" by auto
    then show "in_progress (status_at ?e (JStr ''job-1'') (1 + i))"
      using p1 p2 by (auto simp: numeral_2_eq_2)
  qed
  have d3: "status_at ?e (JStr ''job-1'') 3 = Some (JStr ''completed'')"
    by (simp add: sample_status_at completed_third_def)
  have d: "status_at ?e (JStr ''job-1'') (1 + 2) = Some (JStr ''completed'')"
    by (simp add: sample_status_at completed_third_def)
  have n: "net ?e (2 + 2) (download_request ?e (JStr ''job-1'')) = Inr (json_response 500 JNull)"
    by (simp add: sample_download)
  have s: "status_code (json_response 500 JNull) \<noteq> 200" by (simp add: json_response_def)
  have "(2::nat) < 30" by simp
  from refused_download_fails [OF c this p d n s] c p1 p2 d3 s show ?thesis by simp
qed

text \<open>
  Claim C4, as stated, fails: the result of a lifecycle is the boolean it returns, and a
  lifecycle that runs out of attempts and one whose job the service reports as failed
  both return \<open>False\<close>. The load run gets the same value from both.
\<close>

theorem timeout_result_counterexample:
  "fst (test_async_generation (sample_env (sample_net always_processing 200)) ''0001'') = False
   \<and> fst (test_async_generation (sample_env (sample_net failed_first 200)) ''0001'') = False
   \<and> fst (generate_one (sample_env (sample_net always_processing 200)) True 1)
       = fst (generate_one (sample_env (sample_net failed_first 200)) True 1)"
proof -
  let ?p = "sample_env (sample_net always_processing 200)"
  let ?f = "sample_env (sample_net failed_first 200)"
  have p: "fst (test_async_generation ?p num) = False" for num
  proof -
    have "\<forall>i<30. in_progress (status_at ?p (JStr ''job-1'') (1 + i))"
      by (simp add: sample_status_at always_processing_def in_progress_def)
    from async_timeout [OF sample_created [of always_processing 200 num] this]
    obtain t where "test_async_generation ?p num = (False, t @ [Print ''[ERROR] Job timed out''])"
      by blast
    then show ?thesis by simp
  qed
  have f: "fst (test_async_generation ?f num) = False" for num
  proof -
    obtain r d where r: "net ?f (1 + 0) (status_request ?f (JStr ''job-1'')) = Inr r"
      "status_code r = 200" "json_result r = Inr d"
      "py_getitem d ''status'' = Inr (JStr ''failed'')"
    proof -
      have "status_at ?f (JStr ''job-1'') 1 = Some (JStr ''failed'')"
        by (simp add: sample_status_at failed_first_def)
      then show ?thesis using that by (auto elim: status_at_Some)
    qed
    have q: "\<forall>i<0::nat. in_progress (status_at ?f (JStr ''job-1'') (1 + i))" by simp
    from async_failed_at [OF sample_created [of failed_first 200 num] q _ r]
    obtain t where "test_async_generation ?f num =
       (False, t @ [Print (case error_message d of
             Inl ex \<Rightarrow> ''[ERROR] Async generation failed: '' @ str_exn ?f ex
           | Inr msg \<Rightarrow> ''[ERROR] Job failed: '' @ py_str ?f msg)])"
      by auto
    then show ?thesis by simp
  qed
  show ?thesis by (simp add: generate_one_result p f)
qed

text \<open>
  Claim C4, amended. A lifecycle that runs out of the 30 attempts and a lifecycle whose
  job the service reports as failed both return \<open>False\<close>; they differ in the last line
  they print only. The first ends with \<open>[ERROR] Job timed out\<close>. The second ends with
  \<open>[ERROR] Job failed: \<close> and the message of the status document (\<open>Unknown error\<close> when
  it has none), or, when the \<open>error\<close> entry of the document or the document itself is not an
  object, so that reading the message raises, with \<open>[ERROR] Async generation failed: \<close>
  and the exception; in both cases this is not the line of a timeout.
\<close>

theorem timeout_and_failure_lines:
  "(created_job e num = Some j \<and> (\<forall>i<30. in_progress (status_at e j (1 + i)))
      \<longrightarrow> fst (test_async_generation e num) = False
          \<and> last (snd (test_async_generation e num)) = Print ''[ERROR] Job timed out'')
   \<and> (created_job e num = Some j \<and> k < 30 \<and> (\<forall>i<k. in_progress (status_at e j (1 + i)))
        \<and> net e (1 + k) (status_request e j) = Inr r \<and> status_code r = 200
        \<and> json_result r = Inr d \<and> py_getitem d ''status'' = Inr (JStr ''failed'')
      \<longrightarrow> fst (test_async_generation e num) = False
          \<and> last (snd (test_async_generation e num))
              = Print (case error_message d of
                   Inl ex \<Rightarrow> ''[ERROR] Async generation failed: '' @ str_exn e ex
                 | Inr msg \<Rightarrow> ''[ERROR] Job failed: '' @ py_str e msg)
          \<and> last (snd (test_async_generation e num)) \<noteq> Print ''[ERROR] Job timed out'')"
proof (intro conjI impI)
  assume h: "created_job e num = Some j \<and> (\<forall>i<30. in_progress (status_at e j (1 + i)))"
  then obtain t where t: "test_async_generation e num = (False, t @ [Print ''[ERROR] Job timed out''])"
    using async_timeout [of e num j] by blast
  show "fst (test_async_generation e num) = False" using t by simp
  show "last (snd (test_async_generation e num)) = Print ''[ERROR] Job timed out''"
    using t by simp
next
  assume h: "created_job e num = Some j \<and> k < 30 \<and> (\<forall>i<k. in_progress (status_at e j (1 + i)))
        \<and> net e (1 + k) (status_request e j) = Inr r \<and> status_code r = 200
        \<and> json_result r = Inr d \<and> py_getitem d ''status'' = Inr (JStr ''failed'')"
  then obtain t where t: "test_async_generation e num =
       (False, t @ [Print (case error_message d of
             Inl ex \<Rightarrow> ''[ERROR] Async generation failed: '' @ str_exn e ex
           | Inr msg \<Rightarrow> ''[ERROR] Job failed: '' @ py_str e msg)])"
    using async_failed_at [of e num j k r d] by blast
  show "fst (test_async_generation e num) = False" using t by simp
  show l: "last (snd (test_async_generation e num))
      = Print (case error_message d of
           Inl ex \<Rightarrow> ''[ERROR] Async generation failed: '' @ str_exn e ex
         | Inr msg \<Rightarrow> ''[ERROR] Job failed: '' @ py_str e msg)"
    using t by simp
  show "last (snd (test_async_generation e num)) \<noteq> Print ''[ERROR] Job timed out''"
    unfolding l by (cases "error_message d") simp_all
qed

text \<open>
  A job that stays \<open>processing\<close>, a job that fails at once with the message
  \<open>render error\<close>, and a job that fails at once with an \<open>error\<close> entry that is a string
  (reading its message raises \<open>AttributeError\<close>): the same result, and the last line
  tells the timeout from the two failures.
\<close>

theorem timeout_and_failure_lines_witness:
  "last (snd (test_async_generation (sample_env (sample_net always_processing 200)) ''0001''))
     = Print ''[ERROR] Job timed out''
   \<and> last (snd (test_async_generation (sample_env (sample_net failed_first 200)) ''0001''))
     = Print ''[ERROR] Job failed: render error''
   \<and> last (snd (test_async_generation (sample_env (sample_net failed_malformed 200)) ''0001''))
     = Print ''[ERROR] Async generation failed: <exception>''
   \<and> fst (test_async_generation (sample_env (sample_net always_processing 200)) ''0001'') = False
   \<and> fst (test_async_generation (sample_env (sample_net failed_first 200)) ''0001'') = False
   \<and> fst (test_async_generation (sample_env (sample_net failed_malformed 200)) ''0001'') = False"
proof -
  let ?p = "sample_env (sample_net always_processing 200)"
  let ?f = "sample_env (sample_net failed_first 200)"
  let ?m = "sample_env (sample_net failed_malformed 200)"
  let ?d = "JObj [(''status'', JStr ''failed''), (''error'', JObj [(''message'', JStr ''render error'')])]"
  let ?d' = "JObj [(''status'', JStr ''failed''), (''error'', JStr ''render error'')]"
  have c: "created_job ?p ''0001'' = Some (JStr ''job-1'')"
    "created_job ?f ''0001'' = Some (JStr ''job-1'')"
    "created_job ?m ''0001'' = Some (JStr ''job-1'')"
    by (rule sample_created)+
  have p: "\<forall>i<30. in_progress (status_at ?p (JStr ''job-1'') (1 + i))"
    by (simp add: sample_status_at always_processing_def in_progress_def)
  have q: "\<forall>i<0::nat. in_progress (status_at e' (JStr ''job-1'') (1 + i))" for e'
    by simp
  have n: "net ?f (1 + 0) (status_request ?f (JStr ''job-1'')) = Inr (json_response 200 ?d)"
    by (simp add: sample_env_def sample_net_def status_request_def failed_first_def)
  have n': "net ?m (1 + 0) (status_request ?m (JStr ''job-1'')) = Inr (json_response 200 ?d')"
    by (simp add: sample_env_def sample_net_def status_request_def failed_malformed_def)
  have r: "status_code (json_response 200 ?d) = 200" "json_result (json_response 200 ?d) = Inr ?d"
    "py_getitem ?d ''status'' = Inr (JStr ''failed'')"
    "error_message ?d = Inr (JStr ''render error'')"
    by (simp_all add: json_response_def error_message_def)
  have r': "status_code (json_response 200 ?d') = 200"
    "json_result (json_response 200 ?d') = Inr ?d'"
    "py_getitem ?d' ''status'' = Inr (JStr ''failed'')"
    "error_message ?d' = Inl AttributeError"
    by (simp_all add: json_response_def error_message_def)
  have x: "str_exn ?m AttributeError = ''<exception>''" by (simp add: sample_env_def)
  from timeout_and_failure_lines [of ?p "''0001''" "JStr ''job-1''" 0 "json_response 200 ?d" ?d]
    c(1) p
  have a: "fst (test_async_generation ?p ''0001'') = False"
    "last (snd (test_async_generation ?p ''0001'')) = Print ''[ERROR] Job timed out''"
    by blast+
  from timeout_and_failure_lines [of ?f "''0001''" "JStr ''job-1''" 0 "json_response 200 ?d" ?d]
    c(2) q [of ?f] n r
  have b: "fst (test_async_generation ?f ''0001'') = False"
    "last (snd (test_async_generation ?f ''0001''))
       = Print (''[ERROR] Job failed: '' @ py_str ?f (JStr ''render error''))"
    by simp_all
  from timeout_and_failure_lines [of ?m "''0001''" "JStr ''job-1''" 0 "json_response 200 ?d'" ?d']
    c(3) q [of ?m] n' r'
  have m: "fst (test_async_generation ?m ''0001'') = False"
    "last (snd (test_async_generation ?m ''0001''))
       = Print (''[ERROR] Async generation failed: '' @ str_exn ?m AttributeError)"
    by simp_all
  from a b m x show ?thesis by simp
qed

end
